theory Spec2Isabelle
  imports Complex_Main "HOL-Library.Log_Nat"
begin

section \<open>Gas estimation and call selection: \<open>onSwap\<close> of \<open>useSwapCallback\<close>\<close>

text \<open>
  A swap call is a contract together with the parameters of one router method. The
  interfaces \<open>SwapCallAsync\<close> and \<open>SwapCall\<close> differ only in the type of \<open>parameters\<close>
  (still to be awaited, or resolved), so one record with the two types as parameters
  serves both. The candidates reach \<open>onSwap\<close> as a list; each one is estimated on its own
  and the outcomes are collected in the order of the candidates (\<open>Promise.all\<close> keeps the
  order).
\<close>

record SwapParameters =
  methodName :: string
  args :: "string list"
  callValue :: string

record ('c, 'p) SwapCallOf =
  contract :: 'c
  parameters :: 'p

type_synonym SwapCall = "(string, SwapParameters) SwapCallOf"

text \<open>
  \<open>EstimatedSwapCall = SuccessfulCall | FailedCall\<close>: the two shapes are told apart in the
  source by the presence of the field \<open>gasEstimate\<close> or \<open>error\<close>.
\<close>

datatype EstimatedSwapCall =
    SuccessfulCall SwapCall int
  | FailedCall SwapCall string

fun has_gasEstimate :: "EstimatedSwapCall \<Rightarrow> bool" where
  "has_gasEstimate (SuccessfulCall c g) = True"
| "has_gasEstimate (FailedCall c e) = False"

fun has_error :: "EstimatedSwapCall \<Rightarrow> bool" where
  "has_error (SuccessfulCall c g) = False"
| "has_error (FailedCall c e) = True"

text \<open>
  The field \<open>error\<close> of a failed call. The source reads it from the elements that the
  filter \<open>'error' in call\<close> keeps, which are failed calls.
\<close>

fun error_of :: "EstimatedSwapCall \<Rightarrow> string" where
  "error_of (FailedCall c e) = e"
| "error_of (SuccessfulCall c g) = []"

text \<open>
  The field \<open>reason\<close> of the error of a rejected static call: a string, or \<open>null\<close> when
  the call reverted without a reason string, or \<open>undefined\<close> when the error has no such
  field. The \<open>switch\<close> compares it with the two router messages; the template string of
  the default case prints \<open>null\<close> and \<open>undefined\<close> as these words.
\<close>

datatype RevertReason = ReasonUndefined | ReasonNull | ReasonString string

definition errorMessage :: "RevertReason \<Rightarrow> string" where
  "errorMessage reason =
     (if reason = ReasonString ''UniswapV2Router: INSUFFICIENT_OUTPUT_AMOUNT''
         \<or> reason = ReasonString ''UniswapV2Router: EXCESSIVE_INPUT_AMOUNT''
      then ''This transaction will not succeed either due to price movement or fee on transfer. Try increasing your slippage tolerance.''
      else ''The transaction cannot succeed due to error: ''
           @ (case reason of
                ReasonUndefined \<Rightarrow> ''undefined''
              | ReasonNull \<Rightarrow> ''null''
              | ReasonString r \<Rightarrow> r)
           @ ''. This is probably an issue with one of the tokens you are swapping.'')"

text \<open>
  The provider is outside the program: \<open>estimateGas\<close> and \<open>callStatic\<close> are parameters
  that either resolve (\<open>Inr\<close>) or reject (\<open>Inl\<close>). A rejected static call carries the
  revert reason.
\<close>

definition estimateCall ::
  "(SwapCall \<Rightarrow> 'e + int) \<Rightarrow> (SwapCall \<Rightarrow> RevertReason + 'r) \<Rightarrow> SwapCall \<Rightarrow> EstimatedSwapCall"
where
  "estimateCall estimateGas callStatic c =
     (case estimateGas c of
        Inr gasEstimate \<Rightarrow> SuccessfulCall c gasEstimate
      | Inl gasError \<Rightarrow>
          (case callStatic c of
             Inr result \<Rightarrow>
               FailedCall c ''Unexpected issue with estimating the gas. Please try again.''
           | Inl reason \<Rightarrow> FailedCall c (errorMessage reason)))"

text \<open>
  \<open>Array.prototype.find\<close> with the three-argument callback \<open>(el, ix, list)\<close>: the first
  element, in index order, on which the callback holds, or \<open>undefined\<close> (\<open>None\<close>).
\<close>

definition array_find :: "('a \<Rightarrow> nat \<Rightarrow> 'a list \<Rightarrow> bool) \<Rightarrow> 'a list \<Rightarrow> 'a option" where
  "array_find f list =
     map_option (\<lambda>ix. list ! ix) (List.find (\<lambda>ix. f (list ! ix) ix list) [0..<length list])"

text \<open>
  The callback of the source:
  \<open>'gasEstimate' in el && (ix === list.length - 1 || 'gasEstimate' in list[ix + 1])\<close>.
  It is only called with \<open>ix < list.length\<close>, so \<open>list[ix + 1]\<close> is read in range.
\<close>

definition estimation_ok :: "EstimatedSwapCall \<Rightarrow> nat \<Rightarrow> EstimatedSwapCall list \<Rightarrow> bool" where
  "estimation_ok el ix list \<longleftrightarrow>
     has_gasEstimate el \<and> (ix = length list - 1 \<or> has_gasEstimate (list ! (ix + 1)))"

definition successfulEstimation :: "EstimatedSwapCall list \<Rightarrow> EstimatedSwapCall option" where
  "successfulEstimation estimatedCalls = array_find estimation_ok estimatedCalls"

text \<open>
  The outcome of the selection: the selected call, or the error that \<open>onSwap\<close> throws
  (\<open>Inl\<close> with the message of the thrown \<open>Error\<close>).
\<close>

definition selectEstimation :: "EstimatedSwapCall list \<Rightarrow> string + EstimatedSwapCall" where
  "selectEstimation estimatedCalls =
     (case successfulEstimation estimatedCalls of
        Some el \<Rightarrow> Inr el
      | None \<Rightarrow>
          (let errorCalls = filter has_error estimatedCalls in
           if length errorCalls > 0 then Inl (error_of (errorCalls ! (length errorCalls - 1)))
           else Inl ''Unexpected error. Please contact support: none of the calls threw an error''))"

definition onSwap_selection ::
  "(SwapCall \<Rightarrow> 'e + int) \<Rightarrow> (SwapCall \<Rightarrow> RevertReason + 'r) \<Rightarrow> SwapCall list
     \<Rightarrow> string + EstimatedSwapCall"
where
  "onSwap_selection estimateGas callStatic swapCalls =
     selectEstimation (map (estimateCall estimateGas callStatic) swapCalls)"

text \<open>Two concrete candidates, used to run the selection.\<close>

definition callA :: SwapCall where
  "callA = \<lparr>contract = ''router'',
            parameters = \<lparr>methodName = ''swapExactTokensForTokens'', args = [], callValue = ''0x0''\<rparr>\<rparr>"

definition callB :: SwapCall where
  "callB = \<lparr>contract = ''router'',
            parameters = \<lparr>methodName = ''swapExactTokensForTokensSupportingFeeOnTransferTokens'',
                          args = [], callValue = ''0x0''\<rparr>\<rparr>"

section \<open>Decimal arithmetic (decimal.js)\<close>

text \<open>
  A \<open>Decimal\<close> is modelled by the rational number it denotes. The library compares
  exactly (\<open>lessThan\<close>, \<open>equals\<close>) and rounds the result of \<open>mul\<close>, \<open>add\<close> and \<open>sub\<close> to
  \<open>precision\<close> significant digits, half away from zero. The precision is a setting of the
  library (20 unless it is changed) and is a parameter of every function that computes.
\<close>

type_synonym Decimal = rat

definition round_half_up :: "rat \<Rightarrow> int" where
  "round_half_up x = (if 0 \<le> x then \<lfloor>x + 1 / 2\<rfloor> else - \<lfloor>- x + 1 / 2\<rfloor>)"

text \<open>
  The decimal exponent of the leading digit of a non-zero \<open>x\<close>: the \<open>e\<close> with
  \<open>10^e \<le> |x| < 10^(e+1)\<close>, computed on numerator and denominator.
\<close>

definition sd_exponent :: "rat \<Rightarrow> int" where
  "sd_exponent x =
     (let (a, b) = quotient_of \<bar>x\<bar> in
      if b \<le> a then int (floorlog 10 (nat (a div b))) - 1
      else - int (floorlog 10 (nat ((b - 1) div a))))"

definition to_precision :: "nat \<Rightarrow> rat \<Rightarrow> rat" where
  "to_precision precision x =
     (if x = 0 then 0
      else let k = int precision - 1 - sd_exponent x
           in of_int (round_half_up (x * 10 powi k)) * 10 powi (- k))"

definition Decimal_mul :: "nat \<Rightarrow> Decimal \<Rightarrow> Decimal \<Rightarrow> Decimal" where
  "Decimal_mul precision x y = to_precision precision (x * y)"

definition Decimal_add :: "nat \<Rightarrow> Decimal \<Rightarrow> Decimal \<Rightarrow> Decimal" where
  "Decimal_add precision x y = to_precision precision (x + y)"


definition Decimal_lessThan :: "Decimal \<Rightarrow> Decimal \<Rightarrow> bool" where
  "Decimal_lessThan x y \<longleftrightarrow> x < y"

definition Decimal_equals :: "Decimal \<Rightarrow> Decimal \<Rightarrow> bool" where
  "Decimal_equals x y \<longleftrightarrow> x = y"


section \<open>Trades of the wrapper (\<open>W3Trade\<close>) and their comparison: \<open>utils/trades.ts\<close>\<close>

datatype W3TradeType = EXACT_INPUT | EXACT_OUTPUT

record W3Currency =
  decimals :: nat
  symbol :: string
  name :: string

record W3Token =
  chainId :: nat
  address :: string
  currency :: W3Currency

record W3TokenAmount =
  token :: W3Token
  amount :: int

record W3Pair =
  tokenAmount0 :: W3TokenAmount
  tokenAmount1 :: W3TokenAmount

record W3Route =
  pairs :: "W3Pair list"
  path :: "W3Token list"

record W3Trade =
  route :: W3Route
  tradeType :: W3TradeType
  inputAmount :: W3TokenAmount
  outputAmount :: W3TokenAmount

text \<open>
  Modelled from the spec: \<open>currencyEquals\<close> of \<open>polywrap/utils\<close>, a module outside the
  sources verified here. The spec makes a currency an immutable value whose equality is
  structural; on the wrapper's currency that is equality of \<open>decimals\<close>, \<open>symbol\<close> and
  \<open>name\<close>.
\<close>

definition currencyEquals :: "W3Currency \<Rightarrow> W3Currency \<Rightarrow> bool" where
  "currencyEquals currencyA currencyB \<longleftrightarrow>
     name currencyA = name currencyB \<and> symbol currencyA = symbol currencyB
     \<and> decimals currencyA = decimals currencyB"

text \<open>
  Modelled from the spec: the constants \<open>W3_ZERO_PERCENT\<close> and \<open>W3_ONE_HUNDRED_PERCENT\<close> of
  the constants module, which is outside the sources verified here. The spec compares
  the delta with 0 and multiplies by \<open>1 + minimumDelta\<close>.
\<close>

definition W3_ZERO_PERCENT :: Decimal where
  "W3_ZERO_PERCENT = 0"

definition W3_ONE_HUNDRED_PERCENT :: Decimal where
  "W3_ONE_HUNDRED_PERCENT = 1"

text \<open>
  \<open>w3IsTradeBetter(client, tradeA, tradeB, minimumDelta)\<close>. An absent trade (\<open>undefined\<close> or
  \<open>null\<close>) is \<open>None\<close>. The execution price of a trade is computed by the wrapper and is the
  parameter \<open>w3TradeExecutionPrice\<close>. The result is \<open>Inl\<close> of the message when the function
  throws, and otherwise \<open>Inr\<close> of the returned \<open>boolean | undefined\<close>.
\<close>

definition w3IsTradeBetter ::
  "nat \<Rightarrow> (W3Trade \<Rightarrow> Decimal) \<Rightarrow> W3Trade option \<Rightarrow> W3Trade option \<Rightarrow> Decimal
     \<Rightarrow> string + bool option"
where
  "w3IsTradeBetter precision w3TradeExecutionPrice tradeA tradeB minimumDelta =
     (if tradeA \<noteq> None \<and> tradeB = None then Inr (Some False)
      else if tradeB \<noteq> None \<and> tradeA = None then Inr (Some True)
      else
        (case (tradeA, tradeB) of
           (Some a, Some b) \<Rightarrow>
             if tradeType a \<noteq> tradeType b
                \<or> \<not> currencyEquals (currency (token (inputAmount a)))
                                     (currency (token (inputAmount b)))
                \<or> \<not> currencyEquals (currency (token (outputAmount b)))
                                     (currency (token (outputAmount b)))
             then Inl ''Trades are not comparable''
             else
               (let executionPriceA = w3TradeExecutionPrice a;
                    executionPriceB = w3TradeExecutionPrice b
                in if Decimal_equals minimumDelta W3_ZERO_PERCENT
                   then Inr (Some (Decimal_lessThan executionPriceA executionPriceB))
                   else Inr (Some (Decimal_lessThan
                          (Decimal_mul precision executionPriceA
                             (Decimal_add precision minimumDelta W3_ONE_HUNDRED_PERCENT))
                          executionPriceB)))
         | _ \<Rightarrow> Inr None))"

section \<open>Price breakdown: \<open>computeTradePriceBreakdown\<close> and \<open>w3computeTradePriceBreakdown\<close>\<close>

















section \<open>Severity of a price impact: \<open>warningSeverity\<close>\<close>

text \<open>
  The four thresholds are constants of the constants module, which is outside the
  sources verified here; they are taken as a parameter.
\<close>

record PriceImpactThresholds =
  W3ALLOWED_PRICE_IMPACT_LOW :: Decimal
  W3ALLOWED_PRICE_IMPACT_MEDIUM :: Decimal
  W3ALLOWED_PRICE_IMPACT_HIGH :: Decimal
  W3BLOCKED_PRICE_IMPACT_NON_EXPERT :: Decimal

text \<open>
  \<open>priceImpact?.lessThan(t)\<close> is \<open>undefined\<close> when the impact is \<open>undefined\<close>, and
  \<open>!undefined\<close> is \<open>true\<close>.
\<close>

definition opt_lessThan :: "Decimal option \<Rightarrow> Decimal \<Rightarrow> bool option" where
  "opt_lessThan priceImpact t = map_option (\<lambda>x. Decimal_lessThan x t) priceImpact"

definition js_not :: "bool option \<Rightarrow> bool" where
  "js_not b = (case b of None \<Rightarrow> True | Some v \<Rightarrow> \<not> v)"

definition warningSeverity :: "PriceImpactThresholds \<Rightarrow> Decimal option \<Rightarrow> nat" where
  "warningSeverity th priceImpact =
     (if js_not (opt_lessThan priceImpact (W3BLOCKED_PRICE_IMPACT_NON_EXPERT th)) then 4
      else if js_not (opt_lessThan priceImpact (W3ALLOWED_PRICE_IMPACT_HIGH th)) then 3
      else if js_not (opt_lessThan priceImpact (W3ALLOWED_PRICE_IMPACT_MEDIUM th)) then 2
      else if js_not (opt_lessThan priceImpact (W3ALLOWED_PRICE_IMPACT_LOW th)) then 1
      else 0)"

section \<open>JavaScript truthiness\<close>

text \<open>
  The hooks test their inputs with \<open>!x\<close>. An object is falsy only when it is \<open>undefined\<close> or
  \<open>null\<close> (\<open>None\<close>); a string is also falsy when it is empty, and a number when it is 0.
\<close>

definition truthy_string :: "string option \<Rightarrow> bool" where
  "truthy_string s \<longleftrightarrow> (case s of None \<Rightarrow> False | Some v \<Rightarrow> v \<noteq> [])"

definition truthy_number :: "int option \<Rightarrow> bool" where
  "truthy_number n \<longleftrightarrow> (case n of None \<Rightarrow> False | Some v \<Rightarrow> v \<noteq> 0)"

section \<open>The swap-call builder: \<open>useSwapCallArguments\<close>\<close>

datatype Version = v1 | v2

text \<open>
  The options handed to the parameter builders. The slippage is kept as the number of
  bips the hook received (the source converts it to a decimal string for the wrapper and
  to a \<open>Percent\<close> for V1); \<open>feeOnTransfer\<close> is absent in the V1 call. The deadline and the
  nonce of the permit hook are \<open>BigNumber\<close>s that hold block timestamps and nonces, on
  which \<open>toNumber\<close> is the identity.
\<close>

record TradeOptions =
  feeOnTransfer :: "bool option"
  allowedSlippage :: int
  recipient :: string
  deadline :: int

text \<open>
  \<open>w3SwapCallParameters\<close> (a call into the wrapper, still to be awaited) and
  \<open>v1SwapArguments\<close> are functions of other modules: a descriptor records which of the two
  was called and with which arguments. The V1 call receives the trade mapped back by
  \<open>reverseMapTrade\<close>; the descriptor records the wrapper trade it is mapped from.
\<close>

datatype SwapParametersCall =
    w3SwapCallParameters W3Trade TradeOptions
  | v1SwapArguments W3Trade TradeOptions

text \<open>
  What the hooks called by \<open>useSwapCallArguments\<close> return: the active account, chain and
  library, the toggled version, the resolved address of the recipient, the transaction
  deadline and the V1 exchange contract.
\<close>

record ('lib, 'c) SwapHooks =
  hook_account :: "string option"
  hook_chainId :: "int option"
  hook_library :: "'lib option"
  toggledVersion :: "Version option"
  recipientAddress :: "string option"
  transactionDeadline :: "int option"
  v1Exchange :: "'c option"

text \<open>
  \<open>recipient = recipientAddressOrName === null ? account : recipientAddress\<close>.
\<close>

definition swapRecipient :: "('lib, 'c) SwapHooks \<Rightarrow> string option \<Rightarrow> string option" where
  "swapRecipient hooks recipientAddressOrName =
     (if recipientAddressOrName = None then hook_account hooks else recipientAddress hooks)"

text \<open>\<open>getRouterContract\<close> of \<open>utils\<close> is a parameter.\<close>

definition useSwapCallArguments ::
  "(int \<Rightarrow> 'lib \<Rightarrow> string \<Rightarrow> 'c) \<Rightarrow> ('lib, 'c) SwapHooks
     \<Rightarrow> W3Trade option \<Rightarrow> int \<Rightarrow> string option
     \<Rightarrow> ('c, SwapParametersCall) SwapCallOf list"
where
  "useSwapCallArguments getRouterContract hooks trade slippage recipientAddressOrName =
     (let recipientOpt = swapRecipient hooks recipientAddressOrName;
          tradeVersion = toggledVersion hooks
      in if trade = None \<or> \<not> truthy_string recipientOpt \<or> hook_library hooks = None
            \<or> \<not> truthy_string (hook_account hooks) \<or> tradeVersion = None
            \<or> \<not> truthy_number (hook_chainId hooks) \<or> transactionDeadline hooks = None
         then []
         else
           (case (trade, recipientOpt, hook_library hooks, hook_account hooks, tradeVersion,
                  hook_chainId hooks, transactionDeadline hooks) of
              (Some t, Some rcp, Some lib, Some acct, Some ver, Some chain, Some dl) \<Rightarrow>
                (let contractOpt = (if ver = v2 then Some (getRouterContract chain lib acct)
                                    else v1Exchange hooks)
                 in case contractOpt of
                      None \<Rightarrow> []
                    | Some c \<Rightarrow>
                        (let swapMethods =
                           (case ver of
                              v2 \<Rightarrow>
                                [w3SwapCallParameters t
                                   \<lparr>feeOnTransfer = Some False, allowedSlippage = slippage,
                                    recipient = rcp, deadline = dl\<rparr>]
                                @ (if tradeType t = EXACT_INPUT
                                   then [w3SwapCallParameters t
                                           \<lparr>feeOnTransfer = Some True,
                                            allowedSlippage = slippage,
                                            recipient = rcp, deadline = dl\<rparr>]
                                   else [])
                            | v1 \<Rightarrow>
                                [v1SwapArguments t
                                   \<lparr>feeOnTransfer = None, allowedSlippage = slippage,
                                    recipient = rcp, deadline = dl\<rparr>])
                         in map (\<lambda>ps. \<lparr>contract = c, parameters = ps\<rparr>) swapMethods))
            | _ \<Rightarrow> []))"

section \<open>The permit signer: \<open>useERC20Permit\<close>\<close>

datatype PermitType = AMOUNT | ALLOWED

record PermitInfo =
  permit_type :: PermitType
  permit_name :: string
  permit_version :: "string option"

datatype UseERC20PermitState = NOT_APPLICABLE | LOADING | NOT_SIGNED | SIGNED

text \<open>
  \<open>SignatureData = StandardSignatureData | AllowedSignatureData\<close>: the standard shape
  carries the signed \<open>amount\<close>, the other one the field \<open>allowed\<close>. The amount is the
  decimal string of an integer and is modelled by that integer.
\<close>

datatype SignedValue = Amount int | Allowed

record SignatureData =
  sig_v :: int
  sig_r :: string
  sig_s :: string
  sig_deadline :: int
  sig_nonce :: int
  sig_owner :: string
  sig_spender :: string
  sig_chainId :: int
  sig_tokenAddress :: string
  sig_permitType :: PermitType
  sig_value :: SignedValue

text \<open>
  Modelled from the spec: the currencies of the core SDK, a library outside the sources
  verified here. A currency is the native asset of a chain or a token with an address;
  two currencies are equal when both are native on the same chain, or both are tokens
  with the same chain and address.
\<close>

datatype Currency =
    NativeCurrency int nat string
  | Token int string nat string

fun Currency_equals :: "Currency \<Rightarrow> Currency \<Rightarrow> bool" where
  "Currency_equals (NativeCurrency c d s) (NativeCurrency c' d' s') \<longleftrightarrow> c = c'"
| "Currency_equals (Token c a d s) (Token c' a' d' s') \<longleftrightarrow> c = c' \<and> a = a'"
| "Currency_equals x y \<longleftrightarrow> False"

text \<open>An amount of the core SDK: a currency and the integer \<open>quotient\<close>.\<close>

record CoreCurrencyAmount =
  amount_currency :: Currency
  amount_quotient :: int

text \<open>
  \<open>tokenAddress = currencyAmount?.currency?.isToken ? currencyAmount.currency.address
  : undefined\<close>.
\<close>

definition tokenAddress_of :: "CoreCurrencyAmount option \<Rightarrow> string option" where
  "tokenAddress_of currencyAmount =
     (case currencyAmount of
        None \<Rightarrow> None
      | Some ca \<Rightarrow> (case amount_currency ca of
                     Token c a d s \<Rightarrow> Some a
                   | NativeCurrency c d s \<Rightarrow> None))"

text \<open>The state of the multicall that reads \<open>nonces(account)\<close>.\<close>

record CallState =
  call_valid :: bool
  call_loading :: bool
  call_result :: "int list option"

text \<open>
  What the hooks called by \<open>useERC20Permit\<close> return, and the stored signature (the state
  of the hook).
\<close>

record ('prov, 'c) PermitHooks =
  permit_account :: "string option"
  permit_chainId :: "int option"
  permit_provider :: "'prov option"
  eip2612Contract :: "'c option"
  isArgentWallet :: bool
  tokenNonceState :: CallState
  signatureData :: "SignatureData option"

record PermitResult =
  permit_state :: UseERC20PermitState
  permit_signatureData :: "SignatureData option"
  has_gatherPermitSignature :: bool

definition PERMIT_VALIDITY_BUFFER :: int where
  "PERMIT_VALIDITY_BUFFER = 20 * 60"

text \<open>
  \<open>permitInfo = overridePermitInfo ?? (chainId && tokenAddress
    ? PERMITTABLE_TOKENS[chainId]?.[tokenAddress] : undefined)\<close>. The table is a parameter:
  its keys are addresses of token constants declared in another module.
\<close>

definition permitInfo_of ::
  "(int \<Rightarrow> string \<Rightarrow> PermitInfo option) \<Rightarrow> PermitInfo option \<Rightarrow> int option
     \<Rightarrow> string option \<Rightarrow> PermitInfo option"
where
  "permitInfo_of PERMITTABLE_TOKENS overridePermitInfo chain tokenAddress =
     (case overridePermitInfo of
        Some info \<Rightarrow> Some info
      | None \<Rightarrow>
          (if truthy_number chain \<and> truthy_string tokenAddress
           then (case (chain, tokenAddress) of
                   (Some c, Some a) \<Rightarrow> PERMITTABLE_TOKENS c a
                 | _ \<Rightarrow> None)
           else None))"

text \<open>\<open>nonceNumber = tokenNonceState.result?.[0]?.toNumber()\<close>.\<close>

definition nonceNumber_of :: "CallState \<Rightarrow> int option" where
  "nonceNumber_of st =
     (case call_result st of
        None \<Rightarrow> None
      | Some [] \<Rightarrow> None
      | Some (n # ns) \<Rightarrow> Some n)"

text \<open>
  The conjunction \<open>isSignatureDataValid\<close>, in the order of the source. It is called once
  the hook has its account, token address, spender, deadline and amount.
\<close>

definition isSignatureDataValid ::
  "SignatureData option \<Rightarrow> string \<Rightarrow> int \<Rightarrow> string \<Rightarrow> int \<Rightarrow> string
     \<Rightarrow> CoreCurrencyAmount \<Rightarrow> bool"
where
  "isSignatureDataValid sd acct txDeadline tokenAddress nonceNumber spender currencyAmount =
     (case sd of
        None \<Rightarrow> False
      | Some sg \<Rightarrow>
          sig_owner sg = acct
          \<and> sig_deadline sg \<ge> txDeadline
          \<and> sig_tokenAddress sg = tokenAddress
          \<and> sig_nonce sg = nonceNumber
          \<and> sig_spender sg = spender
          \<and> (case sig_value sg of
                Allowed \<Rightarrow> True
              | Amount a \<Rightarrow> a = amount_quotient currencyAmount))"

definition useERC20Permit ::
  "(int \<Rightarrow> string \<Rightarrow> PermitInfo option) \<Rightarrow> ('prov, 'c) PermitHooks
     \<Rightarrow> CoreCurrencyAmount option \<Rightarrow> string option \<Rightarrow> int option \<Rightarrow> PermitInfo option
     \<Rightarrow> PermitResult"
where
  "useERC20Permit PERMITTABLE_TOKENS hooks currencyAmount spender txDeadline overridePermitInfo =
     (let tokenAddress = tokenAddress_of currencyAmount;
          permitInfo = permitInfo_of PERMITTABLE_TOKENS overridePermitInfo
                         (permit_chainId hooks) tokenAddress
      in if isArgentWallet hooks \<or> currencyAmount = None \<or> eip2612Contract hooks = None
            \<or> \<not> truthy_string (permit_account hooks)
            \<or> \<not> truthy_number (permit_chainId hooks)
            \<or> txDeadline = None \<or> permit_provider hooks = None
            \<or> \<not> call_valid (tokenNonceState hooks)
            \<or> \<not> truthy_string tokenAddress \<or> \<not> truthy_string spender
            \<or> permitInfo = None
         then \<lparr>permit_state = NOT_APPLICABLE, permit_signatureData = None,
               has_gatherPermitSignature = False\<rparr>
         else
           (let nonceOpt = nonceNumber_of (tokenNonceState hooks)
            in if call_loading (tokenNonceState hooks) \<or> nonceOpt = None
               then \<lparr>permit_state = LOADING, permit_signatureData = None,
                     has_gatherPermitSignature = False\<rparr>
               else
                 (case (currencyAmount, permit_account hooks, txDeadline, tokenAddress, spender,
                        nonceOpt)
                  of (Some ca, Some acct, Some dl, Some ta, Some sp, Some nonceNumber) \<Rightarrow>
                       (let ok = isSignatureDataValid (signatureData hooks) acct dl ta
                                   nonceNumber sp ca
                        in \<lparr>permit_state = (if ok then SIGNED else NOT_SIGNED),
                            permit_signatureData = (if ok then signatureData hooks else None),
                            has_gatherPermitSignature = True\<rparr>)
                   | _ \<Rightarrow>
                       \<lparr>permit_state = NOT_APPLICABLE, permit_signatureData = None,
                        has_gatherPermitSignature = False\<rparr>)))"

text \<open>
  The signature data that \<open>gatherPermitSignature\<close> stores once the wallet has signed and
  the signature is split into \<open>v\<close>, \<open>r\<close>, \<open>s\<close>.
\<close>

definition gatherPermitSignature ::
  "PermitInfo \<Rightarrow> string \<Rightarrow> int \<Rightarrow> string \<Rightarrow> string \<Rightarrow> int \<Rightarrow> int
     \<Rightarrow> CoreCurrencyAmount \<Rightarrow> int \<times> string \<times> string \<Rightarrow> SignatureData"
where
  "gatherPermitSignature permitInfo acct chain tokenAddress spender txDeadline nonceNumber
     currencyAmount signature =
     (let allowed = (permit_type permitInfo = ALLOWED);
          signatureDeadline = txDeadline + PERMIT_VALIDITY_BUFFER
      in case signature of
           (v, r, s) \<Rightarrow>
             \<lparr>sig_v = v, sig_r = r, sig_s = s, sig_deadline = signatureDeadline,
              sig_nonce = nonceNumber, sig_owner = acct, sig_spender = spender,
              sig_chainId = chain, sig_tokenAddress = tokenAddress,
              sig_permitType = permit_type permitInfo,
              sig_value = (if allowed then Allowed else Amount (amount_quotient currencyAmount))\<rparr>)"

section \<open>The client-side trade: \<open>useClientSideV3Trade\<close>\<close>

text \<open>
  The trade type of the core SDK has the same two members as the one of the wrapper
  (\<open>mapTradeType\<close> maps one onto the other), so one datatype serves both.
\<close>

type_synonym TradeType = W3TradeType

datatype TradeState = TradeState_LOADING | INVALID | NO_ROUTE_FOUND | VALID | SYNCING

text \<open>
  The result of one quoter call. The fields \<open>amountOut\<close> and \<open>amountIn\<close> of a result are
  unsigned integers returned by the quoter contract, absent (\<open>None\<close>) when the result does
  not have them.
\<close>

record QuoteResult =
  quote_amountOut :: "int option"
  quote_amountIn :: "int option"

record QuoteCallState =
  quote_valid :: bool
  quote_loading :: bool
  quote_result :: "QuoteResult option"

text \<open>The accumulator of the \<open>reduce\<close> that looks for the best route.\<close>

record 'route CurrentBest =
  bestRoute :: "'route option"
  best_amountIn :: "CoreCurrencyAmount option"
  best_amountOut :: "CoreCurrencyAmount option"

definition fromRawAmount :: "Currency \<Rightarrow> int \<Rightarrow> CoreCurrencyAmount" where
  "fromRawAmount c rawAmount = \<lparr>amount_currency = c, amount_quotient = rawAmount\<rparr>"

text \<open>\<open>routes[i]\<close>: \<open>undefined\<close> (\<open>None\<close>) when the index is out of range.\<close>

definition array_get :: "'a list \<Rightarrow> nat \<Rightarrow> 'a option" where
  "array_get xs i = (if i < length xs then Some (xs ! i) else None)"

text \<open>
  The callback of the \<open>reduce\<close>. \<open>currencyIn\<close>, \<open>currencyOut\<close> and \<open>amountSpecified\<close> are
  present when it runs.
\<close>

definition bestRoute_step ::
  "TradeType \<Rightarrow> CoreCurrencyAmount \<Rightarrow> Currency \<Rightarrow> Currency \<Rightarrow> 'route list
     \<Rightarrow> 'route CurrentBest \<Rightarrow> nat \<times> QuoteCallState \<Rightarrow> 'route CurrentBest"
where
  "bestRoute_step tType amountSpecified currencyIn currencyOut routes currentBest iq =
     (case iq of
        (i, q) \<Rightarrow>
          (case quote_result q of
             None \<Rightarrow> currentBest
           | Some result \<Rightarrow>
               if tType = EXACT_INPUT then
                 (case quote_amountOut result of
                    None \<Rightarrow> currentBest
                  | Some amountOutStr \<Rightarrow>
                      (let amountOut = fromRawAmount currencyOut amountOutStr
                       in if (case best_amountOut currentBest of
                                None \<Rightarrow> True
                              | Some b \<Rightarrow> amount_quotient b < amount_quotient amountOut)
                          then \<lparr>bestRoute = array_get routes i,
                                best_amountIn = Some amountSpecified,
                                best_amountOut = Some amountOut\<rparr>
                          else currentBest))
               else
                 (case quote_amountIn result of
                    None \<Rightarrow> currentBest
                  | Some amountInStr \<Rightarrow>
                      (let amountIn = fromRawAmount currencyIn amountInStr
                       in if (case best_amountIn currentBest of
                                None \<Rightarrow> True
                              | Some b \<Rightarrow> amount_quotient b > amount_quotient amountIn)
                          then \<lparr>bestRoute = array_get routes i,
                                best_amountIn = Some amountIn,
                                best_amountOut = Some amountSpecified\<rparr>
                          else currentBest))))"

definition bestRoute_reduce ::
  "TradeType \<Rightarrow> CoreCurrencyAmount \<Rightarrow> Currency \<Rightarrow> Currency \<Rightarrow> 'route list
     \<Rightarrow> QuoteCallState list \<Rightarrow> 'route CurrentBest"
where
  "bestRoute_reduce tType amountSpecified currencyIn currencyOut routes quotesResults =
     foldl (bestRoute_step tType amountSpecified currencyIn currencyOut routes)
       \<lparr>bestRoute = None, best_amountIn = None, best_amountOut = None\<rparr>
       (zip [0..<length quotesResults] quotesResults)"

text \<open>
  What one run of the effect does to the result of the hook: it sets a state without a
  trade, leaves the result as it is (the route no longer fits the amounts), or asks the
  wrapper to create the trade of the best route, which becomes the \<open>VALID\<close> result when
  the wrapper answers.
\<close>

datatype 'route EffectOutcome =
    SetResult TradeState
  | NoUpdate
  | CreateUncheckedTrade 'route CoreCurrencyAmount CoreCurrencyAmount

text \<open>
  The two checks of the route against the amounts use \<open>reverseMapToken\<close> and the wrapped
  currencies; they are the parameters \<open>inputMatches\<close> and \<open>outputMatches\<close>.
\<close>

definition useClientSideV3Trade_effect ::
  "('route \<Rightarrow> CoreCurrencyAmount \<Rightarrow> bool) \<Rightarrow> ('route \<Rightarrow> CoreCurrencyAmount \<Rightarrow> bool)
     \<Rightarrow> TradeType \<Rightarrow> CoreCurrencyAmount option \<Rightarrow> Currency option
     \<Rightarrow> 'route list \<Rightarrow> bool \<Rightarrow> QuoteCallState list \<Rightarrow> 'route EffectOutcome"
where
  "useClientSideV3Trade_effect inputMatches outputMatches tType amountSpecified otherCurrency
     routes routesLoading quotesResults =
     (let currencyIn = (if tType = EXACT_INPUT then map_option amount_currency amountSpecified
                        else otherCurrency);
          currencyOut = (if tType = EXACT_INPUT then otherCurrency
                         else map_option amount_currency amountSpecified)
      in case (amountSpecified, currencyIn, currencyOut) of
           (Some amt, Some cIn, Some cOut) \<Rightarrow>
             if (\<exists>q \<in> set quotesResults. \<not> quote_valid q)
                \<or> (if tType = EXACT_INPUT then Currency_equals (amount_currency amt) cOut
                    else Currency_equals (amount_currency amt) cIn)
             then SetResult INVALID
             else if routesLoading \<or> (\<exists>q \<in> set quotesResults. quote_loading q)
             then SetResult TradeState_LOADING
             else
               (let best = bestRoute_reduce tType amt cIn cOut routes quotesResults
                in case (bestRoute best, best_amountIn best, best_amountOut best) of
                     (Some r, Some amountIn, Some amountOut) \<Rightarrow>
                       if \<not> inputMatches r amountIn then NoUpdate
                       else if \<not> outputMatches r amountOut then NoUpdate
                       else CreateUncheckedTrade r amountIn amountOut
                   | _ \<Rightarrow> SetResult NO_ROUTE_FOUND)
         | _ \<Rightarrow> SetResult INVALID)"

text \<open>
  The first effect and the multicall that feed the effect above. The wrapper turns each
  route into call data (\<open>quoteCallParameters\<close>, a parameter; \<open>undefined\<close>, that is \<open>None\<close>,
  when the invocation fails and has no data). The call data that are \<open>undefined\<close> are
  filtered out and the rest is stored as \<open>callParams\<close>; without an amount the list is
  empty. The quoter contract is then called once per element of \<open>callParams\<close> (\<open>quoter\<close>,
  a parameter: the state of the call with the given call data), which gives
  \<open>quotesResults\<close> in the order of \<open>callParams\<close>.
\<close>

fun definedParams :: "'a option list \<Rightarrow> 'a list" where
  "definedParams [] = []"
| "definedParams (None # params) = definedParams params"
| "definedParams (Some v # params) = v # definedParams params"

definition callParams_of ::
  "('route \<Rightarrow> CoreCurrencyAmount \<Rightarrow> TradeType \<Rightarrow> string option) \<Rightarrow> TradeType
     \<Rightarrow> CoreCurrencyAmount option \<Rightarrow> 'route list \<Rightarrow> string list"
where
  "callParams_of quoteCallParameters tType amountSpecified routes =
     (case amountSpecified of
        None \<Rightarrow> []
      | Some amt \<Rightarrow> definedParams (map (\<lambda>r. quoteCallParameters r amt tType) routes))"

definition quotesResults_of :: "(string \<Rightarrow> QuoteCallState) \<Rightarrow> string list \<Rightarrow> QuoteCallState list" where
  "quotesResults_of quoter callParams = map quoter callParams"

text \<open>
  The outcome of the hook once the call data and the quotes have settled: the second
  effect run on the quotes of the stored call data.
\<close>

definition useClientSideV3Trade ::
  "('route \<Rightarrow> CoreCurrencyAmount \<Rightarrow> TradeType \<Rightarrow> string option) \<Rightarrow> (string \<Rightarrow> QuoteCallState)
     \<Rightarrow> ('route \<Rightarrow> CoreCurrencyAmount \<Rightarrow> bool) \<Rightarrow> ('route \<Rightarrow> CoreCurrencyAmount \<Rightarrow> bool)
     \<Rightarrow> TradeType \<Rightarrow> CoreCurrencyAmount option \<Rightarrow> Currency option
     \<Rightarrow> 'route list \<Rightarrow> bool \<Rightarrow> 'route EffectOutcome"
where
  "useClientSideV3Trade quoteCallParameters quoter inputMatches outputMatches tType
     amountSpecified otherCurrency routes routesLoading =
     useClientSideV3Trade_effect inputMatches outputMatches tType amountSpecified otherCurrency
       routes routesLoading
       (quotesResults_of quoter (callParams_of quoteCallParameters tType amountSpecified routes))"

text \<open>
  The amount that a quote contributes to the search for the best route: the output
  amount of its result for an exact-input trade, the input amount for an exact-output
  trade, and nothing when the result or the field is absent.
\<close>

definition quoted_out :: "QuoteCallState \<Rightarrow> int option" where
  "quoted_out q = (case quote_result q of None \<Rightarrow> None | Some r \<Rightarrow> quote_amountOut r)"

definition quoted_in :: "QuoteCallState \<Rightarrow> int option" where
  "quoted_in q = (case quote_result q of None \<Rightarrow> None | Some r \<Rightarrow> quote_amountIn r)"

section \<open>Example trades\<close>

text \<open>Concrete currencies and trades on which the functions above are run.\<close>

definition DAI :: W3Currency where
  "DAI = \<lparr>decimals = 18, symbol = ''DAI'', name = ''Dai Stablecoin''\<rparr>"

definition USDC :: W3Currency where
  "USDC = \<lparr>decimals = 6, symbol = ''USDC'', name = ''USD Coin''\<rparr>"

definition WETH :: W3Currency where
  "WETH = \<lparr>decimals = 18, symbol = ''WETH'', name = ''Wrapped Ether''\<rparr>"

definition tokenAmountOf :: "W3Currency \<Rightarrow> string \<Rightarrow> int \<Rightarrow> W3TokenAmount" where
  "tokenAmountOf c a n = \<lparr>token = \<lparr>chainId = 1, address = a, currency = c\<rparr>, amount = n\<rparr>"

definition tradeOf :: "W3TradeType \<Rightarrow> W3TokenAmount \<Rightarrow> W3TokenAmount \<Rightarrow> W3Trade" where
  "tradeOf ty i out =
     \<lparr>route = \<lparr>pairs = [\<lparr>tokenAmount0 = i, tokenAmount1 = out\<rparr>], path = [token i, token out]\<rparr>,
      tradeType = ty, inputAmount = i, outputAmount = out\<rparr>"

definition tradeDaiUsdc :: W3Trade where
  "tradeDaiUsdc =
     tradeOf EXACT_INPUT (tokenAmountOf DAI ''0xDA1'' 1000) (tokenAmountOf USDC ''0xC01'' 990)"

definition tradeDaiUsdc995 :: W3Trade where
  "tradeDaiUsdc995 =
     tradeOf EXACT_INPUT (tokenAmountOf DAI ''0xDA1'' 1000) (tokenAmountOf USDC ''0xC01'' 995)"

definition tradeDaiWeth :: W3Trade where
  "tradeDaiWeth =
     tradeOf EXACT_INPUT (tokenAmountOf DAI ''0xDA1'' 1000) (tokenAmountOf WETH ''0xE01'' 2)"

text \<open>An execution price for the examples: output amount over input amount.\<close>

definition priceOf :: "W3Trade \<Rightarrow> Decimal" where
  "priceOf t = of_int (amount (outputAmount t)) / of_int (amount (inputAmount t))"

definition exampleThresholds :: PriceImpactThresholds where
  "exampleThresholds =
     \<lparr>W3ALLOWED_PRICE_IMPACT_LOW = 1 / 100, W3ALLOWED_PRICE_IMPACT_MEDIUM = 3 / 100,
      W3ALLOWED_PRICE_IMPACT_HIGH = 5 / 100, W3BLOCKED_PRICE_IMPACT_NON_EXPERT = 15 / 100\<rparr>"

section \<open>Example hook contexts\<close>

definition exampleRouter :: "int \<Rightarrow> string \<Rightarrow> string \<Rightarrow> string" where
  "exampleRouter chain lib acct = ''router''"

definition exampleHooks :: "Version \<Rightarrow> (string, string) SwapHooks" where
  "exampleHooks ver =
     \<lparr>hook_account = Some ''0xAcc'', hook_chainId = Some 1, hook_library = Some ''library'',
      toggledVersion = Some ver, recipientAddress = None,
      transactionDeadline = Some 1700000000, v1Exchange = Some ''v1exchange''\<rparr>"

definition usdcToken :: Currency where
  "usdcToken = Token 1 ''0xA0b8'' 6 ''USDC''"

definition daiToken :: Currency where
  "daiToken = Token 1 ''0x6B17'' 18 ''DAI''"

definition usdcPermitInfo :: PermitInfo where
  "usdcPermitInfo = \<lparr>permit_type = AMOUNT, permit_name = ''USD Coin'', permit_version = Some ''2''\<rparr>"

definition examplePermitTable :: "int \<Rightarrow> string \<Rightarrow> PermitInfo option" where
  "examplePermitTable chain a = (if chain = 1 \<and> a = ''0xA0b8'' then Some usdcPermitInfo else None)"

text \<open>
  The signature that \<open>gatherPermitSignature\<close> stores for 500 units of the token, spender
  \<open>0xRouter\<close>, transaction deadline 1700000000 and nonce 7.
\<close>

definition exampleSignature :: SignatureData where
  "exampleSignature =
     gatherPermitSignature usdcPermitInfo ''0xAcc'' 1 ''0xA0b8'' ''0xRouter'' 1700000000 7
       \<lparr>amount_currency = usdcToken, amount_quotient = 500\<rparr> (27, ''r'', ''s'')"

definition examplePermitHooks :: "(string, string) PermitHooks" where
  "examplePermitHooks =
     \<lparr>permit_account = Some ''0xAcc'', permit_chainId = Some 1,
      permit_provider = Some ''provider'', eip2612Contract = Some ''usdc'',
      isArgentWallet = False,
      tokenNonceState = \<lparr>call_valid = True, call_loading = False, call_result = Some [7]\<rparr>,
      signatureData = Some exampleSignature\<rparr>"

text \<open>Three quoted routes; the second and the third quote are equal.\<close>

definition quoteOf :: "int option \<Rightarrow> int option \<Rightarrow> QuoteCallState" where
  "quoteOf out inp =
     \<lparr>quote_valid = True, quote_loading = False,
      quote_result = Some \<lparr>quote_amountOut = out, quote_amountIn = inp\<rparr>\<rparr>"

definition exampleQuotes :: "QuoteCallState list" where
  "exampleQuotes = [quoteOf (Some 100) (Some 100), quoteOf (Some 120) (Some 90),
                    quoteOf (Some 120) (Some 90)]"

definition exampleRoutes :: "string list" where
  "exampleRoutes = [''routeA'', ''routeB'', ''routeC'']"

definition failedQuotes :: "QuoteCallState list" where
  "failedQuotes = [\<lparr>quote_valid = True, quote_loading = False, quote_result = None\<rparr>,
                   quoteOf None None]"

text \<open>
  The wrapper fails to build call data for the first of the three routes; the quoter
  answers 100 for the second route and 120 for the third.
\<close>

definition exampleCallData :: "string \<Rightarrow> CoreCurrencyAmount \<Rightarrow> TradeType \<Rightarrow> string option" where
  "exampleCallData r amt ty =
     (if r = ''routeB'' then Some ''calldataB''
      else if r = ''routeC'' then Some ''calldataC''
      else None)"

definition exampleQuoter :: "string \<Rightarrow> QuoteCallState" where
  "exampleQuoter calldata =
     (if calldata = ''calldataB'' then quoteOf (Some 100) (Some 100)
      else if calldata = ''calldataC'' then quoteOf (Some 120) (Some 90)
      else \<lparr>quote_valid = False, quote_loading = False, quote_result = None\<rparr>)"

text \<open>The permit context of the example while the nonce call is still loading.\<close>

definition loadingPermitHooks :: "(string, string) PermitHooks" where
  "loadingPermitHooks =
     examplePermitHooks
       \<lparr>tokenNonceState := \<lparr>call_valid = True, call_loading = True, call_result = Some [7]\<rparr>\<rparr>"



section \<open>Properties of the call selection (C1)\<close>

lemma find_upt_Some_iff:
  "List.find P [0..<n] = Some k \<longleftrightarrow> k < n \<and> P k \<and> (\<forall>j<k. \<not> P j)"
proof -
  have "List.find P [0..<n] = Some k \<longleftrightarrow>
        (\<exists>i<n. P ([0..<n] ! i) \<and> k = [0..<n] ! i \<and> (\<forall>j<i. \<not> P ([0..<n] ! j)))"
    by (simp add: find_Some_iff)
  also have "\<dots> \<longleftrightarrow> (\<exists>i<n. P i \<and> k = i \<and> (\<forall>j<i. \<not> P j))"
    by (rule ex_cong) auto
  also have "\<dots> \<longleftrightarrow> k < n \<and> P k \<and> (\<forall>j<k. \<not> P j)"
    by blast
  finally show ?thesis .
qed

lemma successfulEstimation_Some_iff:
  "successfulEstimation cs = Some el \<longleftrightarrow>
     (\<exists>i<length cs. el = cs ! i \<and> estimation_ok (cs ! i) i cs
        \<and> (\<forall>j<i. \<not> estimation_ok (cs ! j) j cs))"
  unfolding successfulEstimation_def array_find_def
  by (auto simp: find_upt_Some_iff)

lemma successfulEstimation_None_iff:
  "successfulEstimation cs = None \<longleftrightarrow> (\<forall>i<length cs. \<not> estimation_ok (cs ! i) i cs)"
  by (auto simp: successfulEstimation_def array_find_def find_None_iff)

lemma selectEstimation_Inr_iff:
  "selectEstimation cs = Inr el \<longleftrightarrow> successfulEstimation cs = Some el"
  by (auto simp: selectEstimation_def Let_def split: option.splits)

lemma selectEstimation_pair:
  "selectEstimation [x, y] =
     (if has_gasEstimate x \<and> has_gasEstimate y then Inr x
      else if has_gasEstimate y then Inr y
      else Inl (error_of y))"
  by (cases x; cases y;
      simp add: selectEstimation_def successfulEstimation_def array_find_def estimation_ok_def
                upt_rec)

lemma filter_has_error_Nil_iff:
  "filter has_error cs = [] \<longleftrightarrow> (\<forall>c\<in>set cs. has_gasEstimate c)"
  by (induction cs) (auto elim: has_error.elims has_gasEstimate.elims)

lemma all_estimated_selects:
  assumes "cs \<noteq> []" and "\<forall>c\<in>set cs. has_gasEstimate c"
  shows "successfulEstimation cs \<noteq> None"
proof -
  have "estimation_ok (cs ! (length cs - 1)) (length cs - 1) cs"
    using assms by (simp add: estimation_ok_def)
  then show ?thesis
    using assms(1) by (auto simp: successfulEstimation_None_iff intro!: exI[of _ "length cs - 1"])
qed

lemma selection_first_index:
  "successfulEstimation cs = Some el \<longleftrightarrow>
     (\<exists>i<length cs. el = cs ! i \<and> has_gasEstimate (cs ! i)
        \<and> (i = length cs - 1 \<or> has_gasEstimate (cs ! (i + 1)))
        \<and> (\<forall>j<i. \<not> (has_gasEstimate (cs ! j) \<and> has_gasEstimate (cs ! (j + 1)))))"
proof -
  have *: "estimation_ok (cs ! j) j cs \<longleftrightarrow> has_gasEstimate (cs ! j) \<and> has_gasEstimate (cs ! (j + 1))"
    if "j < i" "i < length cs" for i j
    using that by (auto simp: estimation_ok_def)
  have "successfulEstimation cs = Some el \<longleftrightarrow>
        (\<exists>i<length cs. el = cs ! i \<and> estimation_ok (cs ! i) i cs
           \<and> (\<forall>j<i. \<not> estimation_ok (cs ! j) j cs))"
    by (rule successfulEstimation_Some_iff)
  also have "\<dots> \<longleftrightarrow>
        (\<exists>i<length cs. el = cs ! i \<and> has_gasEstimate (cs ! i)
           \<and> (i = length cs - 1 \<or> has_gasEstimate (cs ! (i + 1)))
           \<and> (\<forall>j<i. \<not> (has_gasEstimate (cs ! j) \<and> has_gasEstimate (cs ! (j + 1)))))"
    using * by (intro ex_cong) (auto simp: estimation_ok_def)
  finally show ?thesis .
qed

text \<open>
  With the provider in the picture: a candidate is estimated successfully exactly when
  \<open>estimateGas\<close> resolves for it, and when it resolves for every candidate the first
  candidate of the list is the one that is submitted.
\<close>

lemma estimateCall_has_gasEstimate:
  "has_gasEstimate (estimateCall estimateGas callStatic c) \<longleftrightarrow> (\<exists>g. estimateGas c = Inr g)"
  by (cases "estimateGas c"; cases "callStatic c") (simp_all add: estimateCall_def)

lemma onSwap_selection_all_estimated:
  assumes "swapCalls \<noteq> []" and "\<forall>c\<in>set swapCalls. \<exists>g. estimateGas c = Inr g"
  shows "\<exists>g. estimateGas (hd swapCalls) = Inr g
           \<and> onSwap_selection estimateGas callStatic swapCalls
               = Inr (SuccessfulCall (hd swapCalls) g)"
proof -
  let ?cs = "map (estimateCall estimateGas callStatic) swapCalls"
  obtain g where g: "estimateGas (hd swapCalls) = Inr g"
    using assms by (cases swapCalls) auto
  have all: "\<forall>i<length ?cs. has_gasEstimate (?cs ! i)"
    using assms(2) by (simp add: estimateCall_has_gasEstimate)
  have len: "0 < length ?cs" using assms(1) by simp
  have "estimation_ok (?cs ! 0) 0 ?cs"
  proof (cases "length ?cs = 1")
    case True
    then show ?thesis using all by (simp add: estimation_ok_def)
  next
    case False
    then have "0 + 1 < length ?cs" using len by linarith
    then show ?thesis using all len by (simp add: estimation_ok_def)
  qed
  then have "successfulEstimation ?cs = Some (?cs ! 0)"
    using len by (subst successfulEstimation_Some_iff) (auto intro!: exI[of _ 0])
  moreover have "?cs ! 0 = SuccessfulCall (hd swapCalls) g"
    using assms(1) g by (cases swapCalls) (simp_all add: estimateCall_def)
  ultimately show ?thesis
    using g by (simp add: onSwap_selection_def selectEstimation_def)
qed

text \<open>
  C1 (as stated): a candidate is selected iff it and every later candidate succeeded, the
  last such candidate wins, and of two candidates that both succeed the second is
  selected. The code does otherwise: of two successful candidates the first is selected,
  and a successful first candidate followed by a failed one selects nothing.
\<close>

theorem C1_both_succeed_selects_first_counterexample:
  "selectEstimation [SuccessfulCall callA 100, SuccessfulCall callB 200]
     \<noteq> Inr (SuccessfulCall callB 200)
   \<and> selectEstimation [SuccessfulCall callA 100, FailedCall callB ''B reverted'']
     \<noteq> Inr (SuccessfulCall callA 100)"
  by (simp add: selectEstimation_pair callA_def callB_def)

text \<open>
  C1 (amended): the selected candidate is the first one, in list order, that succeeded
  gas estimation and is either the last candidate or directly followed by a candidate
  that succeeded too. For two candidates A, B: both succeed selects A; A succeeds and B
  fails throws B's error; both fail throws B's error. When nothing is selected the error
  of the last failed candidate is thrown, and the generic fault is thrown exactly when
  there is no candidate at all.
\<close>

theorem C1_selects_first_estimated_call_with_estimated_successor:
  "(selectEstimation cs = Inr el \<longleftrightarrow>
      (\<exists>i<length cs. el = cs ! i \<and> has_gasEstimate (cs ! i)
         \<and> (i = length cs - 1 \<or> has_gasEstimate (cs ! (i + 1)))
         \<and> (\<forall>j<i. \<not> (has_gasEstimate (cs ! j) \<and> has_gasEstimate (cs ! (j + 1))))))
   \<and> selectEstimation [SuccessfulCall a g, SuccessfulCall b h] = Inr (SuccessfulCall a g)
   \<and> selectEstimation [SuccessfulCall a g, FailedCall b e] = Inl e
   \<and> selectEstimation [FailedCall a d, FailedCall b e] = Inl e
   \<and> (successfulEstimation cs = None \<and> filter has_error cs \<noteq> []
        \<longrightarrow> selectEstimation cs = Inl (error_of (last (filter has_error cs))))
   \<and> (selectEstimation cs
        = Inl ''Unexpected error. Please contact support: none of the calls threw an error''
        \<and> filter has_error cs = [] \<longleftrightarrow> cs = [])"
proof (intro conjI)
  show "selectEstimation cs = Inr el \<longleftrightarrow>
      (\<exists>i<length cs. el = cs ! i \<and> has_gasEstimate (cs ! i)
         \<and> (i = length cs - 1 \<or> has_gasEstimate (cs ! (i + 1)))
         \<and> (\<forall>j<i. \<not> (has_gasEstimate (cs ! j) \<and> has_gasEstimate (cs ! (j + 1)))))"
    by (simp only: selectEstimation_Inr_iff selection_first_index)
  show "selectEstimation [SuccessfulCall a g, SuccessfulCall b h] = Inr (SuccessfulCall a g)"
    by (simp add: selectEstimation_pair)
  show "selectEstimation [SuccessfulCall a g, FailedCall b e] = Inl e"
    by (simp add: selectEstimation_pair)
  show "selectEstimation [FailedCall a d, FailedCall b e] = Inl e"
    by (simp add: selectEstimation_pair)
  show "successfulEstimation cs = None \<and> filter has_error cs \<noteq> []
        \<longrightarrow> selectEstimation cs = Inl (error_of (last (filter has_error cs)))"
    by (simp add: selectEstimation_def Let_def last_conv_nth)
  show "selectEstimation cs
        = Inl ''Unexpected error. Please contact support: none of the calls threw an error''
        \<and> filter has_error cs = [] \<longleftrightarrow> cs = []"
  proof
    assume h: "selectEstimation cs
        = Inl ''Unexpected error. Please contact support: none of the calls threw an error''
        \<and> filter has_error cs = []"
    then have "successfulEstimation cs = None"
      by (auto simp: selectEstimation_def split: option.splits)
    moreover from h have "\<forall>c\<in>set cs. has_gasEstimate c"
      by (simp add: filter_has_error_Nil_iff)
    ultimately show "cs = []"
      using all_estimated_selects by blast
  next
    assume "cs = []"
    then show "selectEstimation cs
        = Inl ''Unexpected error. Please contact support: none of the calls threw an error''
        \<and> filter has_error cs = []"
      by (simp add: selectEstimation_def successfulEstimation_def array_find_def)
  qed
qed

theorem C1_selects_first_estimated_call_with_estimated_successor_witness:
  "selectEstimation
     [FailedCall callB ''B reverted'', SuccessfulCall callA 100, SuccessfulCall callB 200,
      FailedCall callA ''A reverted'']
     = Inr (SuccessfulCall callA 100)
   \<and> selectEstimation [FailedCall callA ''A reverted'', FailedCall callB ''B reverted'']
     = Inl ''B reverted''
   \<and> selectEstimation []
     = Inl ''Unexpected error. Please contact support: none of the calls threw an error''"
proof -
  let ?cs = "[FailedCall callB ''B reverted'', SuccessfulCall callA 100, SuccessfulCall callB 200,
      FailedCall callA ''A reverted'']"
  have "\<exists>i<length ?cs. SuccessfulCall callA 100 = ?cs ! i \<and> has_gasEstimate (?cs ! i)
         \<and> (i = length ?cs - 1 \<or> has_gasEstimate (?cs ! (i + 1)))
         \<and> (\<forall>j<i. \<not> (has_gasEstimate (?cs ! j) \<and> has_gasEstimate (?cs ! (j + 1))))"
    by (intro exI[of _ 1]) simp
  then have "selectEstimation ?cs = Inr (SuccessfulCall callA 100)"
    using C1_selects_first_estimated_call_with_estimated_successor
            [of ?cs "SuccessfulCall callA 100"]
    by blast
  moreover have "selectEstimation [FailedCall callA ''A reverted'', FailedCall callB ''B reverted'']
     = Inl ''B reverted''"
    using C1_selects_first_estimated_call_with_estimated_successor
            [where a = callA and d = "''A reverted''" and b = callB and e = "''B reverted''"]
    by blast
  moreover have "selectEstimation []
     = Inl ''Unexpected error. Please contact support: none of the calls threw an error''"
    using C1_selects_first_estimated_call_with_estimated_successor [of "[]"]
    by blast
  ultimately show ?thesis by blast
qed

section \<open>Properties of the trade comparison (C2, C3, C4)\<close>

lemma currencyEquals_refl: "currencyEquals c c"
  by (simp add: currencyEquals_def)

lemma w3IsTradeBetter_throws_iff:
  "w3IsTradeBetter p price (Some a) (Some b) d = Inl msg \<longleftrightarrow>
     msg = ''Trades are not comparable''
     \<and> (tradeType a \<noteq> tradeType b
        \<or> \<not> currencyEquals (currency (token (inputAmount a)))
                             (currency (token (inputAmount b))))"
  by (auto simp: w3IsTradeBetter_def currencyEquals_def Let_def)

text \<open>
  C2: two present trades whose output currencies differ (same trade type, same input
  currency) are not comparable and the comparison must throw. The code compares the
  output currency of tradeB with itself, so the mismatch goes unnoticed: on the trades
  DAI to USDC and DAI to WETH it returns a verdict instead of throwing.
\<close>

theorem C2_output_currency_mismatch_is_not_detected:
  "tradeType tradeDaiUsdc = tradeType tradeDaiWeth
   \<and> currencyEquals (currency (token (inputAmount tradeDaiUsdc)))
                     (currency (token (inputAmount tradeDaiWeth)))
   \<and> \<not> currencyEquals (currency (token (outputAmount tradeDaiUsdc)))
                       (currency (token (outputAmount tradeDaiWeth)))
   \<and> w3IsTradeBetter 20 priceOf (Some tradeDaiUsdc) (Some tradeDaiWeth) 0 = Inr (Some False)"
  by (simp add: w3IsTradeBetter_def tradeDaiUsdc_def tradeDaiWeth_def tradeOf_def
      tokenAmountOf_def currencyEquals_def DAI_def USDC_def WETH_def priceOf_def
      W3_ZERO_PERCENT_def Decimal_equals_def Decimal_lessThan_def)

theorem C2_output_currency_mismatch_is_not_detected_witness:
  "w3IsTradeBetter 20 priceOf (Some tradeDaiUsdc) (Some tradeDaiWeth) 0
     \<noteq> Inl ''Trades are not comparable''"
  using C2_output_currency_mismatch_is_not_detected by simp

text \<open>
  C3: when exactly one of the two trades is present, the present trade is reported as the
  better one, whatever the execution prices and the minimum delta are: the result is
  \<open>true\<close>, the verdict for tradeB, when only tradeB is present, and \<open>false\<close>, the verdict
  for tradeA, when only tradeA is present. When neither is present the result is
  \<open>undefined\<close>.
\<close>

theorem C3_present_trade_beats_absent_trade:
  "w3IsTradeBetter p price (Some a) None d = Inr (Some False)
   \<and> w3IsTradeBetter p price None (Some b) d = Inr (Some True)
   \<and> w3IsTradeBetter p price None None d = Inr None"
  by (simp add: w3IsTradeBetter_def)

theorem C3_present_trade_beats_absent_trade_witness:
  "w3IsTradeBetter 20 priceOf (Some tradeDaiUsdc) None (1 / 100) = Inr (Some False)
   \<and> w3IsTradeBetter 20 (\<lambda>t. 0) None (Some tradeDaiWeth) 0 = Inr (Some True)
   \<and> w3IsTradeBetter 20 priceOf None None 0 = Inr None"
  using C3_present_trade_beats_absent_trade [of 20 priceOf tradeDaiUsdc "1 / 100"]
        C3_present_trade_beats_absent_trade [of 20 "\<lambda>t. 0" _ 0 tradeDaiWeth]
        C3_present_trade_beats_absent_trade [of 20 priceOf _ 0]
  by simp

text \<open>
  C4 (as stated): with a zero delta tradeA is the better trade iff its execution price is
  strictly lower than tradeB's. The code reports the opposite trade: when the price of
  tradeA is strictly lower it returns \<open>true\<close>, which is the verdict it gives for tradeB
  when tradeB is the only trade, and not the verdict it gives for tradeA alone.
\<close>

theorem C4_lower_priced_tradeA_not_reported_better_counterexample:
  "priceOf tradeDaiUsdc < priceOf tradeDaiUsdc995
   \<and> w3IsTradeBetter 20 priceOf (Some tradeDaiUsdc) (Some tradeDaiUsdc995) 0
       = w3IsTradeBetter 20 priceOf None (Some tradeDaiUsdc995) 0
   \<and> w3IsTradeBetter 20 priceOf (Some tradeDaiUsdc) (Some tradeDaiUsdc995) 0
       \<noteq> w3IsTradeBetter 20 priceOf (Some tradeDaiUsdc) None 0"
  by (simp add: w3IsTradeBetter_def tradeDaiUsdc_def tradeDaiUsdc995_def tradeOf_def
      tokenAmountOf_def currencyEquals_def DAI_def USDC_def priceOf_def
      W3_ZERO_PERCENT_def Decimal_equals_def Decimal_lessThan_def)

text \<open>
  C4 (amended): for two present trades of the same trade type and input currency, with a
  zero delta the result is \<open>true\<close> (tradeB is the better trade, the verdict of a lone
  tradeB) iff the execution price of tradeA is strictly lower than that of tradeB, so
  equal prices give \<open>false\<close>; with a non-zero delta the result is \<open>true\<close> iff the price of
  tradeA times \<open>minimumDelta + 1\<close>, as \<open>Decimal\<close> arithmetic computes it, is strictly lower
  than the price of tradeB; that product is the exact one whenever the sum and the
  product need no rounding.
\<close>

theorem C4_true_iff_tradeA_price_strictly_lower:
  assumes "tradeType a = tradeType b"
    and "currencyEquals (currency (token (inputAmount a))) (currency (token (inputAmount b)))"
  shows "w3IsTradeBetter p price None (Some b) d = Inr (Some True)
   \<and> (d = 0 \<longrightarrow>
        w3IsTradeBetter p price (Some a) (Some b) d = Inr (Some (price a < price b)))
   \<and> (d = 0 \<and> price a = price b \<longrightarrow>
        w3IsTradeBetter p price (Some a) (Some b) d = Inr (Some False))
   \<and> (d \<noteq> 0 \<longrightarrow>
        w3IsTradeBetter p price (Some a) (Some b) d
          = Inr (Some (Decimal_mul p (price a) (Decimal_add p d 1) < price b)))
   \<and> (d \<noteq> 0 \<and> to_precision p (d + 1) = d + 1
        \<and> to_precision p (price a * (d + 1)) = price a * (d + 1) \<longrightarrow>
        w3IsTradeBetter p price (Some a) (Some b) d
          = Inr (Some (price a * (1 + d) < price b)))"
proof -
  have both: "w3IsTradeBetter p price (Some a) (Some b) d
      = Inr (Some (if d = 0 then price a < price b
                   else Decimal_mul p (price a) (Decimal_add p d 1) < price b))"
    using assms
    by (simp add: w3IsTradeBetter_def Let_def W3_ZERO_PERCENT_def W3_ONE_HUNDRED_PERCENT_def
        Decimal_equals_def Decimal_lessThan_def currencyEquals_refl)
  have exact: "Decimal_mul p (price a) (Decimal_add p d 1) = price a * (1 + d)"
    if "to_precision p (d + 1) = d + 1"
      and "to_precision p (price a * (d + 1)) = price a * (d + 1)"
    using that by (simp add: Decimal_mul_def Decimal_add_def add.commute)
  have lone: "w3IsTradeBetter p price None (Some b) d = Inr (Some True)"
    by (simp add: w3IsTradeBetter_def)
  show ?thesis
    using both exact lone by auto
qed

lemma to_precision_example_sum: "to_precision 20 (1 / 100 + 1) = 1 / 100 + 1"
  by code_simp

lemma to_precision_example_product:
  "to_precision 20 (priceOf tradeDaiUsdc * (1 / 100 + 1)) = priceOf tradeDaiUsdc * (1 / 100 + 1)"
  by code_simp

theorem C4_true_iff_tradeA_price_strictly_lower_witness:
  "w3IsTradeBetter 20 priceOf (Some tradeDaiUsdc) (Some tradeDaiUsdc995) 0 = Inr (Some True)
   \<and> w3IsTradeBetter 20 priceOf (Some tradeDaiUsdc) (Some tradeDaiUsdc) 0 = Inr (Some False)
   \<and> w3IsTradeBetter 20 priceOf (Some tradeDaiUsdc) (Some tradeDaiUsdc995) (1 / 100)
       = Inr (Some False)"
proof -
  have ty: "tradeType tradeDaiUsdc = tradeType tradeDaiUsdc995"
    by (simp add: tradeDaiUsdc_def tradeDaiUsdc995_def tradeOf_def)
  have cur: "currencyEquals (currency (token (inputAmount tradeDaiUsdc)))
               (currency (token (inputAmount tradeDaiUsdc995)))"
    by (simp add: tradeDaiUsdc_def tradeDaiUsdc995_def tradeOf_def currencyEquals_def)
  have cur': "currencyEquals (currency (token (inputAmount tradeDaiUsdc)))
               (currency (token (inputAmount tradeDaiUsdc)))"
    by (simp add: currencyEquals_def)
  have lt: "priceOf tradeDaiUsdc < priceOf tradeDaiUsdc995"
    by (simp add: priceOf_def tradeDaiUsdc_def tradeDaiUsdc995_def tradeOf_def tokenAmountOf_def)
  have nlt: "\<not> priceOf tradeDaiUsdc * (1 + 1 / 100) < priceOf tradeDaiUsdc995"
    by (simp add: priceOf_def tradeDaiUsdc_def tradeDaiUsdc995_def tradeOf_def tokenAmountOf_def)
  have "w3IsTradeBetter 20 priceOf (Some tradeDaiUsdc) (Some tradeDaiUsdc995) 0 = Inr (Some True)"
    using C4_true_iff_tradeA_price_strictly_lower [OF ty cur, of 20 priceOf 0] lt by simp
  moreover have "w3IsTradeBetter 20 priceOf (Some tradeDaiUsdc) (Some tradeDaiUsdc) 0
      = Inr (Some False)"
    using C4_true_iff_tradeA_price_strictly_lower [OF refl cur', of 20 priceOf 0] by simp
  moreover have "w3IsTradeBetter 20 priceOf (Some tradeDaiUsdc) (Some tradeDaiUsdc995) (1 / 100)
      = Inr (Some False)"
  proof -
    have "(1 / 100 :: rat) \<noteq> 0 \<and> to_precision 20 (1 / 100 + 1) = 1 / 100 + 1
        \<and> to_precision 20 (priceOf tradeDaiUsdc * (1 / 100 + 1))
            = priceOf tradeDaiUsdc * (1 / 100 + 1)"
      using to_precision_example_sum to_precision_example_product by simp
    then have "w3IsTradeBetter 20 priceOf (Some tradeDaiUsdc) (Some tradeDaiUsdc995) (1 / 100)
        = Inr (Some (priceOf tradeDaiUsdc * (1 + 1 / 100) < priceOf tradeDaiUsdc995))"
      using C4_true_iff_tradeA_price_strictly_lower [OF ty cur, of 20 priceOf "1 / 100"]
      by blast
    then show ?thesis using nlt by simp
  qed
  ultimately show ?thesis by blast
qed

section \<open>Decimal rounding is exact on short coefficients\<close>


















section \<open>Properties of the realized liquidity-provider fee (C5)\<close>










section \<open>Properties of the warning severity (C6)\<close>

text \<open>
  C6: \<open>warningSeverity\<close> always returns one of 0, 1, 2, 3, 4; it never decreases when the
  price impact increases; it returns 4 for an undefined impact and for an impact at or
  beyond the blocking threshold. With the four thresholds in ascending order the
  severity is the number of thresholds that the impact has reached.
\<close>

theorem C6_warningSeverity_total_monotone_failsafe:
  "warningSeverity th priceImpact \<in> {0, 1, 2, 3, 4}
   \<and> (x \<le> y \<longrightarrow> warningSeverity th (Some x) \<le> warningSeverity th (Some y))
   \<and> warningSeverity th None = 4
   \<and> (W3BLOCKED_PRICE_IMPACT_NON_EXPERT th \<le> x \<longrightarrow> warningSeverity th (Some x) = 4)
   \<and> (W3ALLOWED_PRICE_IMPACT_LOW th < W3ALLOWED_PRICE_IMPACT_MEDIUM th
        \<and> W3ALLOWED_PRICE_IMPACT_MEDIUM th < W3ALLOWED_PRICE_IMPACT_HIGH th
        \<and> W3ALLOWED_PRICE_IMPACT_HIGH th < W3BLOCKED_PRICE_IMPACT_NON_EXPERT th \<longrightarrow>
      warningSeverity th (Some x)
        = card {t \<in> {W3ALLOWED_PRICE_IMPACT_LOW th, W3ALLOWED_PRICE_IMPACT_MEDIUM th,
                      W3ALLOWED_PRICE_IMPACT_HIGH th, W3BLOCKED_PRICE_IMPACT_NON_EXPERT th}.
                 t \<le> x})"
proof (intro conjI impI)
  show "warningSeverity th priceImpact \<in> {0, 1, 2, 3, 4}"
    by (simp add: warningSeverity_def)
  show "warningSeverity th (Some x) \<le> warningSeverity th (Some y)" if "x \<le> y"
    using that by (auto simp: warningSeverity_def js_not_def opt_lessThan_def Decimal_lessThan_def)
  show "warningSeverity th None = 4"
    by (simp add: warningSeverity_def js_not_def opt_lessThan_def)
  show "warningSeverity th (Some x) = 4" if "W3BLOCKED_PRICE_IMPACT_NON_EXPERT th \<le> x"
    using that by (auto simp: warningSeverity_def js_not_def opt_lessThan_def Decimal_lessThan_def)
  show "warningSeverity th (Some x)
        = card {t \<in> {W3ALLOWED_PRICE_IMPACT_LOW th, W3ALLOWED_PRICE_IMPACT_MEDIUM th,
                      W3ALLOWED_PRICE_IMPACT_HIGH th, W3BLOCKED_PRICE_IMPACT_NON_EXPERT th}.
                 t \<le> x}"
    if asc: "W3ALLOWED_PRICE_IMPACT_LOW th < W3ALLOWED_PRICE_IMPACT_MEDIUM th
        \<and> W3ALLOWED_PRICE_IMPACT_MEDIUM th < W3ALLOWED_PRICE_IMPACT_HIGH th
        \<and> W3ALLOWED_PRICE_IMPACT_HIGH th < W3BLOCKED_PRICE_IMPACT_NON_EXPERT th"
  proof -
    let ?l = "W3ALLOWED_PRICE_IMPACT_LOW th" and ?m = "W3ALLOWED_PRICE_IMPACT_MEDIUM th"
    and ?h = "W3ALLOWED_PRICE_IMPACT_HIGH th" and ?b = "W3BLOCKED_PRICE_IMPACT_NON_EXPERT th"
    let ?S = "{t \<in> {?l, ?m, ?h, ?b}. t \<le> x}"
    consider "?b \<le> x" | "?h \<le> x" "x < ?b" | "?m \<le> x" "x < ?h" | "?l \<le> x" "x < ?m" | "x < ?l"
      by linarith
    then show ?thesis
    proof cases
      case 1
      then have "?S = {?l, ?m, ?h, ?b}" using asc by auto
      moreover have "card {?l, ?m, ?h, ?b} = 4" using asc by simp
      ultimately show ?thesis using 1
        by (simp add: warningSeverity_def js_not_def opt_lessThan_def Decimal_lessThan_def)
    next
      case 2
      then have "?S = {?l, ?m, ?h}" using asc by auto
      moreover have "card {?l, ?m, ?h} = 3" using asc by simp
      ultimately show ?thesis using 2
        by (simp add: warningSeverity_def js_not_def opt_lessThan_def Decimal_lessThan_def)
    next
      case 3
      then have "?S = {?l, ?m}" using asc by auto
      moreover have "card {?l, ?m} = 2" using asc by simp
      ultimately show ?thesis using 3 asc
        by (simp add: warningSeverity_def js_not_def opt_lessThan_def Decimal_lessThan_def)
    next
      case 4
      then have "?S = {?l}" using asc by auto
      then show ?thesis using 4 asc
        by (simp add: warningSeverity_def js_not_def opt_lessThan_def Decimal_lessThan_def)
    next
      case 5
      then have "?S = {}" using asc by auto
      then show ?thesis using 5 asc
        by (simp add: warningSeverity_def js_not_def opt_lessThan_def Decimal_lessThan_def)
    qed
  qed
qed

theorem C6_warningSeverity_total_monotone_failsafe_witness:
  "warningSeverity exampleThresholds (Some (2 / 100)) \<le> warningSeverity exampleThresholds (Some (4 / 100))
   \<and> warningSeverity exampleThresholds (Some (20 / 100)) = 4
   \<and> warningSeverity exampleThresholds None = 4
   \<and> warningSeverity exampleThresholds (Some (4 / 100))
       = card {t \<in> {1 / 100, 3 / 100, 5 / 100, 15 / 100 :: rat}. t \<le> 4 / 100}"
  using C6_warningSeverity_total_monotone_failsafe [of exampleThresholds None "2 / 100" "4 / 100"]
        C6_warningSeverity_total_monotone_failsafe [of exampleThresholds None "20 / 100" "20 / 100"]
        C6_warningSeverity_total_monotone_failsafe [of exampleThresholds None "4 / 100" "4 / 100"]
  by (simp add: exampleThresholds_def)

section \<open>Properties of the swap-call builder (C7)\<close>

text \<open>
  C7 (as stated): with trade, recipient, account, chain and deadline present, an
  EXACT_INPUT trade gets a standard descriptor and a fee-on-transfer descriptor. Under
  the toggled version v1 the code builds a single V1 descriptor and no fee-on-transfer
  variant, although the trade is EXACT_INPUT and every input is present.
\<close>

theorem C7_v1_exact_input_single_descriptor_counterexample:
  "tradeType tradeDaiUsdc = EXACT_INPUT
   \<and> useSwapCallArguments exampleRouter (exampleHooks v1) (Some tradeDaiUsdc) 50 None
     = [\<lparr>contract = ''v1exchange'',
         parameters = v1SwapArguments tradeDaiUsdc
                        \<lparr>feeOnTransfer = None, allowedSlippage = 50,
                         recipient = ''0xAcc'', deadline = 1700000000\<rparr>\<rparr>]"
  by (simp add: useSwapCallArguments_def swapRecipient_def exampleHooks_def tradeDaiUsdc_def
      tradeOf_def truthy_string_def truthy_number_def)

text \<open>
  C7 (amended): with every builder input present (trade, recipient, library, account,
  toggled version, chain, deadline), under version v2 the builder produces exactly one
  standard descriptor and appends exactly one fee-on-transfer descriptor iff the trade
  type is EXACT_INPUT; under version v1 it produces the single V1 descriptor whatever
  the trade type, and nothing when the V1 exchange contract is missing. When the
  deadline or any other required input is missing the result is the empty list.
\<close>

theorem C7_builder_descriptors:
  "(trade = None \<or> \<not> truthy_string (swapRecipient hooks rn) \<or> hook_library hooks = None
      \<or> \<not> truthy_string (hook_account hooks) \<or> toggledVersion hooks = None
      \<or> \<not> truthy_number (hook_chainId hooks) \<or> transactionDeadline hooks = None
     \<longrightarrow> useSwapCallArguments g hooks trade sl rn = [])
   \<and> (trade = Some t \<and> swapRecipient hooks rn = Some rcp \<and> rcp \<noteq> [] \<and> hook_library hooks = Some lib
       \<and> hook_account hooks = Some acct \<and> acct \<noteq> [] \<and> hook_chainId hooks = Some chain
       \<and> chain \<noteq> 0 \<and> transactionDeadline hooks = Some dl \<and> toggledVersion hooks = Some v2
     \<longrightarrow> useSwapCallArguments g hooks trade sl rn
         = \<lparr>contract = g chain lib acct,
            parameters = w3SwapCallParameters t
                           \<lparr>feeOnTransfer = Some False, allowedSlippage = sl,
                            recipient = rcp, deadline = dl\<rparr>\<rparr>
           # (if tradeType t = EXACT_INPUT
              then [\<lparr>contract = g chain lib acct,
                     parameters = w3SwapCallParameters t
                                    \<lparr>feeOnTransfer = Some True, allowedSlippage = sl,
                                     recipient = rcp, deadline = dl\<rparr>\<rparr>]
              else []))
   \<and> (trade = Some t \<and> swapRecipient hooks rn = Some rcp \<and> rcp \<noteq> [] \<and> hook_library hooks = Some lib
       \<and> hook_account hooks = Some acct \<and> acct \<noteq> [] \<and> hook_chainId hooks = Some chain
       \<and> chain \<noteq> 0 \<and> transactionDeadline hooks = Some dl \<and> toggledVersion hooks = Some v1
     \<longrightarrow> useSwapCallArguments g hooks trade sl rn
         = (case v1Exchange hooks of
              None \<Rightarrow> []
            | Some c \<Rightarrow>
                [\<lparr>contract = c,
                  parameters = v1SwapArguments t
                                 \<lparr>feeOnTransfer = None, allowedSlippage = sl,
                                  recipient = rcp, deadline = dl\<rparr>\<rparr>]))"
proof (intro conjI impI)
  assume "trade = None \<or> \<not> truthy_string (swapRecipient hooks rn) \<or> hook_library hooks = None
      \<or> \<not> truthy_string (hook_account hooks) \<or> toggledVersion hooks = None
      \<or> \<not> truthy_number (hook_chainId hooks) \<or> transactionDeadline hooks = None"
  then show "useSwapCallArguments g hooks trade sl rn = []"
    unfolding useSwapCallArguments_def Let_def by auto
next
  assume "trade = Some t \<and> swapRecipient hooks rn = Some rcp \<and> rcp \<noteq> [] \<and> hook_library hooks = Some lib
       \<and> hook_account hooks = Some acct \<and> acct \<noteq> [] \<and> hook_chainId hooks = Some chain
       \<and> chain \<noteq> 0 \<and> transactionDeadline hooks = Some dl \<and> toggledVersion hooks = Some v2"
  then show "useSwapCallArguments g hooks trade sl rn
         = \<lparr>contract = g chain lib acct,
            parameters = w3SwapCallParameters t
                           \<lparr>feeOnTransfer = Some False, allowedSlippage = sl,
                            recipient = rcp, deadline = dl\<rparr>\<rparr>
           # (if tradeType t = EXACT_INPUT
              then [\<lparr>contract = g chain lib acct,
                     parameters = w3SwapCallParameters t
                                    \<lparr>feeOnTransfer = Some True, allowedSlippage = sl,
                                     recipient = rcp, deadline = dl\<rparr>\<rparr>]
              else [])"
    unfolding useSwapCallArguments_def Let_def
    by (simp add: truthy_string_def truthy_number_def)
next
  assume "trade = Some t \<and> swapRecipient hooks rn = Some rcp \<and> rcp \<noteq> [] \<and> hook_library hooks = Some lib
       \<and> hook_account hooks = Some acct \<and> acct \<noteq> [] \<and> hook_chainId hooks = Some chain
       \<and> chain \<noteq> 0 \<and> transactionDeadline hooks = Some dl \<and> toggledVersion hooks = Some v1"
  then show "useSwapCallArguments g hooks trade sl rn
         = (case v1Exchange hooks of
              None \<Rightarrow> []
            | Some c \<Rightarrow>
                [\<lparr>contract = c,
                  parameters = v1SwapArguments t
                                 \<lparr>feeOnTransfer = None, allowedSlippage = sl,
                                  recipient = rcp, deadline = dl\<rparr>\<rparr>])"
    unfolding useSwapCallArguments_def Let_def
    by (simp add: truthy_string_def truthy_number_def split: option.splits)
qed


theorem C7_builder_descriptors_witness:
  "useSwapCallArguments exampleRouter (exampleHooks v2) (Some tradeDaiUsdc) 50 None
     = [\<lparr>contract = ''router'',
         parameters = w3SwapCallParameters tradeDaiUsdc
                        \<lparr>feeOnTransfer = Some False, allowedSlippage = 50,
                         recipient = ''0xAcc'', deadline = 1700000000\<rparr>\<rparr>,
        \<lparr>contract = ''router'',
         parameters = w3SwapCallParameters tradeDaiUsdc
                        \<lparr>feeOnTransfer = Some True, allowedSlippage = 50,
                         recipient = ''0xAcc'', deadline = 1700000000\<rparr>\<rparr>]
   \<and> length (useSwapCallArguments exampleRouter (exampleHooks v2)
               (Some (tradeDaiUsdc\<lparr>tradeType := EXACT_OUTPUT\<rparr>)) 50 None) = 1
   \<and> length (useSwapCallArguments exampleRouter (exampleHooks v1) (Some tradeDaiUsdc) 50 None) = 1
   \<and> useSwapCallArguments exampleRouter ((exampleHooks v2)\<lparr>transactionDeadline := None\<rparr>)
         (Some tradeDaiUsdc) 50 None = []"
proof -
  have ty: "tradeType tradeDaiUsdc = EXACT_INPUT"
    by (simp add: tradeDaiUsdc_def tradeOf_def)
  have pres: "swapRecipient (exampleHooks ver) None = Some ''0xAcc'' \<and> ''0xAcc'' \<noteq> []
      \<and> hook_library (exampleHooks ver) = Some ''library''
      \<and> hook_account (exampleHooks ver) = Some ''0xAcc'' \<and> ''0xAcc'' \<noteq> []
      \<and> hook_chainId (exampleHooks ver) = Some 1 \<and> (1::int) \<noteq> 0
      \<and> transactionDeadline (exampleHooks ver) = Some 1700000000
      \<and> toggledVersion (exampleHooks ver) = Some ver" for ver
    by (simp add: exampleHooks_def swapRecipient_def)
  note inst = C7_builder_descriptors [where g = exampleRouter and sl = 50 and rn = None
      and rcp = "''0xAcc''" and lib = "''library''" and acct = "''0xAcc''" and chain = 1
      and dl = 1700000000]
  have a: "useSwapCallArguments exampleRouter (exampleHooks v2) (Some tradeDaiUsdc) 50 None
     = [\<lparr>contract = ''router'',
         parameters = w3SwapCallParameters tradeDaiUsdc
                        \<lparr>feeOnTransfer = Some False, allowedSlippage = 50,
                         recipient = ''0xAcc'', deadline = 1700000000\<rparr>\<rparr>,
        \<lparr>contract = ''router'',
         parameters = w3SwapCallParameters tradeDaiUsdc
                        \<lparr>feeOnTransfer = Some True, allowedSlippage = 50,
                         recipient = ''0xAcc'', deadline = 1700000000\<rparr>\<rparr>]"
    using inst [where hooks = "exampleHooks v2" and trade = "Some tradeDaiUsdc"
        and t = tradeDaiUsdc] pres [of v2] ty
    by (simp add: exampleRouter_def)
  have b: "length (useSwapCallArguments exampleRouter (exampleHooks v2)
               (Some (tradeDaiUsdc\<lparr>tradeType := EXACT_OUTPUT\<rparr>)) 50 None) = 1"
    using inst [where hooks = "exampleHooks v2"
        and trade = "Some (tradeDaiUsdc\<lparr>tradeType := EXACT_OUTPUT\<rparr>)"
        and t = "tradeDaiUsdc\<lparr>tradeType := EXACT_OUTPUT\<rparr>"] pres [of v2]
    by simp
  have c: "length (useSwapCallArguments exampleRouter (exampleHooks v1) (Some tradeDaiUsdc) 50 None) = 1"
    using inst [where hooks = "exampleHooks v1" and trade = "Some tradeDaiUsdc"
        and t = tradeDaiUsdc] pres [of v1]
    by (simp add: exampleHooks_def)
  have d: "useSwapCallArguments exampleRouter ((exampleHooks v2)\<lparr>transactionDeadline := None\<rparr>)
         (Some tradeDaiUsdc) 50 None = []"
    using inst [where hooks = "(exampleHooks v2)\<lparr>transactionDeadline := None\<rparr>"
        and trade = "Some tradeDaiUsdc" and t = tradeDaiUsdc]
    by simp
  show ?thesis using a b c d by blast
qed

section \<open>Properties of the permit signer (C8)\<close>

text \<open>
  C8 (as stated): in every applicable context the state is \<open>SIGNED\<close> iff the stored
  signature matches the context, and \<open>NOT_SIGNED\<close> otherwise. While the nonce call is
  loading the context is applicable and the code returns \<open>LOADING\<close>: with a stored
  signature that matches owner, token address, spender, nonce, deadline and amount the
  state is not \<open>SIGNED\<close>, and with an amount that differs it is not \<open>NOT_SIGNED\<close>.
\<close>

theorem C8_loading_nonce_is_neither_signed_nor_not_signed_counterexample:
  "isSignatureDataValid (signatureData loadingPermitHooks) ''0xAcc'' 1700000000 ''0xA0b8'' 7
       ''0xRouter'' \<lparr>amount_currency = usdcToken, amount_quotient = 500\<rparr>
   \<and> permit_state (useERC20Permit examplePermitTable loadingPermitHooks
         (Some \<lparr>amount_currency = usdcToken, amount_quotient = 500\<rparr>)
         (Some ''0xRouter'') (Some 1700000000) None) = LOADING
   \<and> permit_state (useERC20Permit examplePermitTable loadingPermitHooks
         (Some \<lparr>amount_currency = usdcToken, amount_quotient = 501\<rparr>)
         (Some ''0xRouter'') (Some 1700000000) None) = LOADING"
  by (simp add: useERC20Permit_def isSignatureDataValid_def loadingPermitHooks_def
      examplePermitHooks_def exampleSignature_def gatherPermitSignature_def usdcPermitInfo_def
      PERMIT_VALIDITY_BUFFER_def examplePermitTable_def permitInfo_of_def tokenAddress_of_def
      nonceNumber_of_def usdcToken_def truthy_string_def truthy_number_def Let_def)

text \<open>
  C8 (amended): in an applicable context (no Argent wallet; amount of a token, contract,
  account, chain, deadline, provider, spender and permit info present; nonce call
  valid): while the nonce call is loading or has no number as its result, the state is
  \<open>LOADING\<close> and no signature is returned. Otherwise the state is \<open>SIGNED\<close> iff a signature
  is stored whose owner, token address, spender and nonce equal those of the context,
  whose deadline is not before the transaction deadline, and whose amount, when it is
  signed for an amount, equals the amount to approve; then the stored signature is
  returned. If one of these conditions fails the state is \<open>NOT_SIGNED\<close> and no signature
  is returned.
\<close>

theorem C8_signed_iff_stored_signature_matches_context:
  assumes "\<not> isArgentWallet hooks"
    and "currencyAmount = Some ca" and "amount_currency ca = Token c ta d s" and "ta \<noteq> []"
    and "eip2612Contract hooks \<noteq> None"
    and "permit_account hooks = Some acct" and "acct \<noteq> []"
    and "permit_chainId hooks = Some chain" and "chain \<noteq> 0"
    and "txDeadline = Some dl"
    and "permit_provider hooks \<noteq> None"
    and "call_valid (tokenNonceState hooks)"
    and "spender = Some sp" and "sp \<noteq> []"
    and "permitInfo_of tbl override (permit_chainId hooks) (tokenAddress_of currencyAmount) \<noteq> None"
  shows
  "(call_loading (tokenNonceState hooks) \<or> call_result (tokenNonceState hooks) = None
      \<or> call_result (tokenNonceState hooks) = Some []
    \<longrightarrow> useERC20Permit tbl hooks currencyAmount spender txDeadline override
        = \<lparr>permit_state = LOADING, permit_signatureData = None,
           has_gatherPermitSignature = False\<rparr>)
   \<and> (\<not> call_loading (tokenNonceState hooks)
       \<and> call_result (tokenNonceState hooks) = Some (nonce # rest)
    \<longrightarrow> useERC20Permit tbl hooks currencyAmount spender txDeadline override
        = (if \<exists>sg. signatureData hooks = Some sg
                \<and> sig_owner sg = acct \<and> sig_tokenAddress sg = ta \<and> sig_spender sg = sp
                \<and> sig_nonce sg = nonce \<and> dl \<le> sig_deadline sg
                \<and> (\<forall>a. sig_value sg = Amount a \<longrightarrow> a = amount_quotient ca)
           then \<lparr>permit_state = SIGNED, permit_signatureData = signatureData hooks,
                 has_gatherPermitSignature = True\<rparr>
           else \<lparr>permit_state = NOT_SIGNED, permit_signatureData = None,
                 has_gatherPermitSignature = True\<rparr>))"
proof -
  have ta: "tokenAddress_of currencyAmount = Some ta"
    using assms(2,3) by (simp add: tokenAddress_of_def)
  have guards: "\<not> (isArgentWallet hooks \<or> currencyAmount = None \<or> eip2612Contract hooks = None
            \<or> \<not> truthy_string (permit_account hooks)
            \<or> \<not> truthy_number (permit_chainId hooks)
            \<or> txDeadline = None \<or> permit_provider hooks = None
            \<or> \<not> call_valid (tokenNonceState hooks)
            \<or> \<not> truthy_string (tokenAddress_of currencyAmount) \<or> \<not> truthy_string spender
            \<or> permitInfo_of tbl override (permit_chainId hooks) (tokenAddress_of currencyAmount)
                = None)"
    using assms ta by (simp add: truthy_string_def truthy_number_def)
  have loading: "useERC20Permit tbl hooks currencyAmount spender txDeadline override
        = \<lparr>permit_state = LOADING, permit_signatureData = None,
           has_gatherPermitSignature = False\<rparr>"
    if "call_loading (tokenNonceState hooks) \<or> call_result (tokenNonceState hooks) = None
      \<or> call_result (tokenNonceState hooks) = Some []"
  proof -
    have "call_loading (tokenNonceState hooks) \<or> nonceNumber_of (tokenNonceState hooks) = None"
      using that by (auto simp: nonceNumber_of_def)
    then show ?thesis
      using guards by (simp add: useERC20Permit_def Let_def)
  qed
  have settled: "useERC20Permit tbl hooks currencyAmount spender txDeadline override
        = (if \<exists>sg. signatureData hooks = Some sg
                \<and> sig_owner sg = acct \<and> sig_tokenAddress sg = ta \<and> sig_spender sg = sp
                \<and> sig_nonce sg = nonce \<and> dl \<le> sig_deadline sg
                \<and> (\<forall>a. sig_value sg = Amount a \<longrightarrow> a = amount_quotient ca)
           then \<lparr>permit_state = SIGNED, permit_signatureData = signatureData hooks,
                 has_gatherPermitSignature = True\<rparr>
           else \<lparr>permit_state = NOT_SIGNED, permit_signatureData = None,
                 has_gatherPermitSignature = True\<rparr>)"
    if "\<not> call_loading (tokenNonceState hooks)
       \<and> call_result (tokenNonceState hooks) = Some (nonce # rest)"
  proof -
    have nonce: "nonceNumber_of (tokenNonceState hooks) = Some nonce"
      using that by (simp add: nonceNumber_of_def)
    define ok where "ok = isSignatureDataValid (signatureData hooks) acct dl ta nonce sp ca"
    have res: "useERC20Permit tbl hooks currencyAmount spender txDeadline override
        = \<lparr>permit_state = (if ok then SIGNED else NOT_SIGNED),
           permit_signatureData = (if ok then signatureData hooks else None),
           has_gatherPermitSignature = True\<rparr>"
      using guards that nonce assms(2,6,10,13) ta
      by (simp add: useERC20Permit_def Let_def ok_def)
    have ok_iff: "ok \<longleftrightarrow> (\<exists>sg. signatureData hooks = Some sg
             \<and> sig_owner sg = acct \<and> sig_tokenAddress sg = ta \<and> sig_spender sg = sp
             \<and> sig_nonce sg = nonce \<and> dl \<le> sig_deadline sg
             \<and> (\<forall>a. sig_value sg = Amount a \<longrightarrow> a = amount_quotient ca))"
      by (auto simp: ok_def isSignatureDataValid_def split: option.splits SignedValue.splits)
    show ?thesis
      unfolding res ok_iff [symmetric] by simp
  qed
  show ?thesis
    using loading settled by blast
qed

theorem C8_signed_iff_stored_signature_matches_context_witness:
  "useERC20Permit examplePermitTable examplePermitHooks
       (Some \<lparr>amount_currency = usdcToken, amount_quotient = 500\<rparr>)
       (Some ''0xRouter'') (Some 1700000000) None
     = \<lparr>permit_state = SIGNED, permit_signatureData = Some exampleSignature,
        has_gatherPermitSignature = True\<rparr>
   \<and> useERC20Permit examplePermitTable examplePermitHooks
       (Some \<lparr>amount_currency = usdcToken, amount_quotient = 501\<rparr>)
       (Some ''0xRouter'') (Some 1700000000) None
     = \<lparr>permit_state = NOT_SIGNED, permit_signatureData = None,
        has_gatherPermitSignature = True\<rparr>
   \<and> useERC20Permit examplePermitTable loadingPermitHooks
       (Some \<lparr>amount_currency = usdcToken, amount_quotient = 500\<rparr>)
       (Some ''0xRouter'') (Some 1700000000) None
     = \<lparr>permit_state = LOADING, permit_signatureData = None,
        has_gatherPermitSignature = False\<rparr>"
proof -
  let ?ca = "\<lambda>n. \<lparr>amount_currency = usdcToken, amount_quotient = n\<rparr>"
  note inst = C8_signed_iff_stored_signature_matches_context
    [where c = 1 and d = 6 and s = "''USDC''" and chain = 1 and ta = "''0xA0b8''"
       and acct = "''0xAcc''" and dl = 1700000000 and sp = "''0xRouter''"
       and tbl = examplePermitTable and override = None and spender = "Some ''0xRouter''"
       and txDeadline = "Some 1700000000"]
  have settled: "useERC20Permit examplePermitTable examplePermitHooks (Some (?ca n))
       (Some ''0xRouter'') (Some 1700000000) None
     = (if \<exists>sg. signatureData examplePermitHooks = Some sg
             \<and> sig_owner sg = ''0xAcc'' \<and> sig_tokenAddress sg = ''0xA0b8''
             \<and> sig_spender sg = ''0xRouter''
             \<and> sig_nonce sg = 7 \<and> 1700000000 \<le> sig_deadline sg
             \<and> (\<forall>a. sig_value sg = Amount a \<longrightarrow> a = amount_quotient (?ca n))
        then \<lparr>permit_state = SIGNED, permit_signatureData = signatureData examplePermitHooks,
              has_gatherPermitSignature = True\<rparr>
        else \<lparr>permit_state = NOT_SIGNED, permit_signatureData = None,
              has_gatherPermitSignature = True\<rparr>)" for n
    using inst [where hooks = examplePermitHooks and currencyAmount = "Some (?ca n)"
        and ca = "?ca n" and nonce = 7 and rest = "[]"]
    by (simp add: examplePermitHooks_def usdcToken_def permitInfo_of_def
          examplePermitTable_def tokenAddress_of_def truthy_number_def truthy_string_def)
  have loading: "useERC20Permit examplePermitTable loadingPermitHooks (Some (?ca 500))
       (Some ''0xRouter'') (Some 1700000000) None
     = \<lparr>permit_state = LOADING, permit_signatureData = None,
        has_gatherPermitSignature = False\<rparr>"
    using inst [where hooks = loadingPermitHooks and currencyAmount = "Some (?ca 500)"
        and ca = "?ca 500" and nonce = 7 and rest = "[]"]
    by (simp add: loadingPermitHooks_def examplePermitHooks_def usdcToken_def permitInfo_of_def
          examplePermitTable_def tokenAddress_of_def truthy_number_def truthy_string_def)
  have sg: "signatureData examplePermitHooks = Some exampleSignature"
    by (simp add: examplePermitHooks_def)
  have fields: "sig_owner exampleSignature = ''0xAcc'' \<and> sig_tokenAddress exampleSignature = ''0xA0b8''
      \<and> sig_spender exampleSignature = ''0xRouter'' \<and> sig_nonce exampleSignature = 7
      \<and> sig_deadline exampleSignature = 1700001200 \<and> sig_value exampleSignature = Amount 500"
    by (simp add: exampleSignature_def gatherPermitSignature_def usdcPermitInfo_def
        PERMIT_VALIDITY_BUFFER_def)
  show ?thesis
    using settled [of 500] settled [of 501] loading sg fields by auto
qed

section \<open>Properties of the client-side trade (C9, C10)\<close>

lemma bestRoute_reduce_Nil:
  "bestRoute_reduce ty amt cIn cOut routes []
     = \<lparr>bestRoute = None, best_amountIn = None, best_amountOut = None\<rparr>"
  by (simp add: bestRoute_reduce_def)

lemma bestRoute_reduce_snoc:
  "bestRoute_reduce ty amt cIn cOut routes (qs @ [q])
     = bestRoute_step ty amt cIn cOut routes (bestRoute_reduce ty amt cIn cOut routes qs)
         (length qs, q)"
  by (simp add: bestRoute_reduce_def)

lemma bestRoute_step_exact_input:
  "bestRoute_step EXACT_INPUT amt cIn cOut routes cur (i, q)
     = (case quoted_out q of
          None \<Rightarrow> cur
        | Some a \<Rightarrow>
            if (case best_amountOut cur of None \<Rightarrow> True | Some b \<Rightarrow> amount_quotient b < a)
            then \<lparr>bestRoute = array_get routes i, best_amountIn = Some amt,
                  best_amountOut = Some (fromRawAmount cOut a)\<rparr>
            else cur)"
  by (simp add: bestRoute_step_def quoted_out_def fromRawAmount_def Let_def split: option.splits)

lemma bestRoute_step_exact_output:
  "bestRoute_step EXACT_OUTPUT amt cIn cOut routes cur (i, q)
     = (case quoted_in q of
          None \<Rightarrow> cur
        | Some a \<Rightarrow>
            if (case best_amountIn cur of None \<Rightarrow> True | Some b \<Rightarrow> a < amount_quotient b)
            then \<lparr>bestRoute = array_get routes i, best_amountIn = Some (fromRawAmount cIn a),
                  best_amountOut = Some amt\<rparr>
            else cur)"
  by (simp add: bestRoute_step_def quoted_in_def fromRawAmount_def Let_def split: option.splits)

lemma reduce_exact_input_inv:
  "(if \<forall>q\<in>set qs. quoted_out q = None
    then bestRoute_reduce EXACT_INPUT amt cIn cOut routes qs
           = \<lparr>bestRoute = None, best_amountIn = None, best_amountOut = None\<rparr>
    else \<exists>i<length qs. \<exists>a. quoted_out (qs ! i) = Some a
           \<and> bestRoute_reduce EXACT_INPUT amt cIn cOut routes qs
               = \<lparr>bestRoute = array_get routes i, best_amountIn = Some amt,
                  best_amountOut = Some (fromRawAmount cOut a)\<rparr>
           \<and> (\<forall>j<length qs. \<forall>b. quoted_out (qs ! j) = Some b \<longrightarrow> b \<le> a)
           \<and> (\<forall>j<i. \<forall>b. quoted_out (qs ! j) = Some b \<longrightarrow> b < a))"
proof (induction qs rule: rev_induct)
  case Nil
  show ?case by (simp add: bestRoute_reduce_Nil)
next
  case (snoc q qs)
  let ?n = "length qs"
  let ?best = "bestRoute_reduce EXACT_INPUT amt cIn cOut routes qs"
  show ?case
  proof (cases "quoted_out q")
    case None
    then have same: "bestRoute_reduce EXACT_INPUT amt cIn cOut routes (qs @ [q]) = ?best"
      by (simp add: bestRoute_reduce_snoc bestRoute_step_exact_input)
    show ?thesis
    proof (cases "\<forall>q\<in>set qs. quoted_out q = None")
      case True
      then show ?thesis using snoc.IH None same by simp
    next
      case False
      then have "\<exists>i<?n. \<exists>a. quoted_out (qs ! i) = Some a
           \<and> ?best = \<lparr>bestRoute = array_get routes i, best_amountIn = Some amt,
                  best_amountOut = Some (fromRawAmount cOut a)\<rparr>
           \<and> (\<forall>j<?n. \<forall>b. quoted_out (qs ! j) = Some b \<longrightarrow> b \<le> a)
           \<and> (\<forall>j<i. \<forall>b. quoted_out (qs ! j) = Some b \<longrightarrow> b < a)"
        using snoc.IH by (simp only: if_False)
      then obtain i a where ia: "i < ?n" "quoted_out (qs ! i) = Some a"
        "?best = \<lparr>bestRoute = array_get routes i, best_amountIn = Some amt,
                  best_amountOut = Some (fromRawAmount cOut a)\<rparr>"
        "\<forall>j<?n. \<forall>b. quoted_out (qs ! j) = Some b \<longrightarrow> b \<le> a"
        "\<forall>j<i. \<forall>b. quoted_out (qs ! j) = Some b \<longrightarrow> b < a"
        by blast
      have "\<forall>j<length (qs @ [q]). \<forall>b. quoted_out ((qs @ [q]) ! j) = Some b \<longrightarrow> b \<le> a"
        using ia(4) None by (auto simp: nth_append less_Suc_eq)
      moreover have "\<forall>j<i. \<forall>b. quoted_out ((qs @ [q]) ! j) = Some b \<longrightarrow> b < a"
        using ia(1,5) by (auto simp: nth_append)
      moreover have "quoted_out ((qs @ [q]) ! i) = Some a"
        using ia(1,2) by (simp add: nth_append)
      moreover have "i < length (qs @ [q])" using ia(1) by simp
      ultimately show ?thesis
        using False same ia(3) by (auto intro!: exI[of _ i] exI[of _ a])
    qed
  next
    case (Some a')
    show ?thesis
    proof (cases "\<forall>q\<in>set qs. quoted_out q = None")
      case True
      then have "?best = \<lparr>bestRoute = None, best_amountIn = None, best_amountOut = None\<rparr>"
        using snoc.IH by simp
      then have new: "bestRoute_reduce EXACT_INPUT amt cIn cOut routes (qs @ [q])
          = \<lparr>bestRoute = array_get routes ?n, best_amountIn = Some amt,
             best_amountOut = Some (fromRawAmount cOut a')\<rparr>"
        using Some by (simp add: bestRoute_reduce_snoc bestRoute_step_exact_input)
      have "\<forall>j<length (qs @ [q]). \<forall>b. quoted_out ((qs @ [q]) ! j) = Some b \<longrightarrow> b \<le> a'"
        using True Some by (auto simp: nth_append less_Suc_eq)
      moreover have "\<forall>j<?n. \<forall>b. quoted_out ((qs @ [q]) ! j) = Some b \<longrightarrow> b < a'"
        using True by (auto simp: nth_append)
      moreover have "quoted_out ((qs @ [q]) ! ?n) = Some a'"
        using Some by simp
      ultimately show ?thesis
        using Some new by (auto intro!: exI[of _ ?n] exI[of _ a'])
    next
      case False
      then have "\<exists>i<?n. \<exists>a. quoted_out (qs ! i) = Some a
           \<and> ?best = \<lparr>bestRoute = array_get routes i, best_amountIn = Some amt,
                  best_amountOut = Some (fromRawAmount cOut a)\<rparr>
           \<and> (\<forall>j<?n. \<forall>b. quoted_out (qs ! j) = Some b \<longrightarrow> b \<le> a)
           \<and> (\<forall>j<i. \<forall>b. quoted_out (qs ! j) = Some b \<longrightarrow> b < a)"
        using snoc.IH by (simp only: if_False)
      then obtain i a where ia: "i < ?n" "quoted_out (qs ! i) = Some a"
        "?best = \<lparr>bestRoute = array_get routes i, best_amountIn = Some amt,
                  best_amountOut = Some (fromRawAmount cOut a)\<rparr>"
        "\<forall>j<?n. \<forall>b. quoted_out (qs ! j) = Some b \<longrightarrow> b \<le> a"
        "\<forall>j<i. \<forall>b. quoted_out (qs ! j) = Some b \<longrightarrow> b < a"
        by blast
      show ?thesis
      proof (cases "a < a'")
        case True
        then have new: "bestRoute_reduce EXACT_INPUT amt cIn cOut routes (qs @ [q])
            = \<lparr>bestRoute = array_get routes ?n, best_amountIn = Some amt,
               best_amountOut = Some (fromRawAmount cOut a')\<rparr>"
          using Some ia(3)
          by (simp add: bestRoute_reduce_snoc bestRoute_step_exact_input fromRawAmount_def)
        have "\<forall>j<length (qs @ [q]). \<forall>b. quoted_out ((qs @ [q]) ! j) = Some b \<longrightarrow> b \<le> a'"
          using ia(4) Some True by (fastforce simp: nth_append less_Suc_eq)
        moreover have "\<forall>j<?n. \<forall>b. quoted_out ((qs @ [q]) ! j) = Some b \<longrightarrow> b < a'"
          using ia(4) True by (fastforce simp: nth_append)
        moreover have "quoted_out ((qs @ [q]) ! ?n) = Some a'"
          using Some by simp
        ultimately show ?thesis
          using Some new by (auto intro!: exI[of _ ?n] exI[of _ a'])
      next
        case False
        then have same: "bestRoute_reduce EXACT_INPUT amt cIn cOut routes (qs @ [q]) = ?best"
          using Some ia(3)
          by (simp add: bestRoute_reduce_snoc bestRoute_step_exact_input fromRawAmount_def)
        have "\<forall>j<length (qs @ [q]). \<forall>b. quoted_out ((qs @ [q]) ! j) = Some b \<longrightarrow> b \<le> a"
          using ia(4) Some False by (auto simp: nth_append less_Suc_eq)
        moreover have "\<forall>j<i. \<forall>b. quoted_out ((qs @ [q]) ! j) = Some b \<longrightarrow> b < a"
          using ia(1,5) by (auto simp: nth_append)
        moreover have "quoted_out ((qs @ [q]) ! i) = Some a"
          using ia(1,2) by (simp add: nth_append)
        moreover have "i < length (qs @ [q])" using ia(1) by simp
        ultimately show ?thesis
          using Some same ia(3) by (auto intro!: exI[of _ i] exI[of _ a])
      qed
    qed
  qed
qed

lemma reduce_exact_output_inv:
  "(if \<forall>q\<in>set qs. quoted_in q = None
    then bestRoute_reduce EXACT_OUTPUT amt cIn cOut routes qs
           = \<lparr>bestRoute = None, best_amountIn = None, best_amountOut = None\<rparr>
    else \<exists>i<length qs. \<exists>a. quoted_in (qs ! i) = Some a
           \<and> bestRoute_reduce EXACT_OUTPUT amt cIn cOut routes qs
               = \<lparr>bestRoute = array_get routes i, best_amountIn = Some (fromRawAmount cIn a),
                  best_amountOut = Some amt\<rparr>
           \<and> (\<forall>j<length qs. \<forall>b. quoted_in (qs ! j) = Some b \<longrightarrow> a \<le> b)
           \<and> (\<forall>j<i. \<forall>b. quoted_in (qs ! j) = Some b \<longrightarrow> a < b))"
proof (induction qs rule: rev_induct)
  case Nil
  show ?case by (simp add: bestRoute_reduce_Nil)
next
  case (snoc q qs)
  let ?n = "length qs"
  let ?best = "bestRoute_reduce EXACT_OUTPUT amt cIn cOut routes qs"
  show ?case
  proof (cases "quoted_in q")
    case None
    then have same: "bestRoute_reduce EXACT_OUTPUT amt cIn cOut routes (qs @ [q]) = ?best"
      by (simp add: bestRoute_reduce_snoc bestRoute_step_exact_output)
    show ?thesis
    proof (cases "\<forall>q\<in>set qs. quoted_in q = None")
      case True
      then show ?thesis using snoc.IH None same by simp
    next
      case False
      then have "\<exists>i<?n. \<exists>a. quoted_in (qs ! i) = Some a
           \<and> ?best = \<lparr>bestRoute = array_get routes i, best_amountIn = Some (fromRawAmount cIn a),
                  best_amountOut = Some amt\<rparr>
           \<and> (\<forall>j<?n. \<forall>b. quoted_in (qs ! j) = Some b \<longrightarrow> a \<le> b)
           \<and> (\<forall>j<i. \<forall>b. quoted_in (qs ! j) = Some b \<longrightarrow> a < b)"
        using snoc.IH by (simp only: if_False)
      then obtain i a where ia: "i < ?n" "quoted_in (qs ! i) = Some a"
        "?best = \<lparr>bestRoute = array_get routes i, best_amountIn = Some (fromRawAmount cIn a),
                  best_amountOut = Some amt\<rparr>"
        "\<forall>j<?n. \<forall>b. quoted_in (qs ! j) = Some b \<longrightarrow> a \<le> b"
        "\<forall>j<i. \<forall>b. quoted_in (qs ! j) = Some b \<longrightarrow> a < b"
        by blast
      have "\<forall>j<length (qs @ [q]). \<forall>b. quoted_in ((qs @ [q]) ! j) = Some b \<longrightarrow> a \<le> b"
        using ia(4) None by (auto simp: nth_append less_Suc_eq)
      moreover have "\<forall>j<i. \<forall>b. quoted_in ((qs @ [q]) ! j) = Some b \<longrightarrow> a < b"
        using ia(1,5) by (auto simp: nth_append)
      moreover have "quoted_in ((qs @ [q]) ! i) = Some a"
        using ia(1,2) by (simp add: nth_append)
      moreover have "i < length (qs @ [q])" using ia(1) by simp
      ultimately show ?thesis
        using False same ia(3) by (auto intro!: exI[of _ i] exI[of _ a])
    qed
  next
    case (Some a')
    show ?thesis
    proof (cases "\<forall>q\<in>set qs. quoted_in q = None")
      case True
      then have "?best = \<lparr>bestRoute = None, best_amountIn = None, best_amountOut = None\<rparr>"
        using snoc.IH by simp
      then have new: "bestRoute_reduce EXACT_OUTPUT amt cIn cOut routes (qs @ [q])
          = \<lparr>bestRoute = array_get routes ?n, best_amountIn = Some (fromRawAmount cIn a'),
                  best_amountOut = Some amt\<rparr>"
        using Some by (simp add: bestRoute_reduce_snoc bestRoute_step_exact_output)
      have "\<forall>j<length (qs @ [q]). \<forall>b. quoted_in ((qs @ [q]) ! j) = Some b \<longrightarrow> a' \<le> b"
        using True Some by (auto simp: nth_append less_Suc_eq)
      moreover have "\<forall>j<?n. \<forall>b. quoted_in ((qs @ [q]) ! j) = Some b \<longrightarrow> a' < b"
        using True by (auto simp: nth_append)
      moreover have "quoted_in ((qs @ [q]) ! ?n) = Some a'"
        using Some by simp
      ultimately show ?thesis
        using Some new by (auto intro!: exI[of _ ?n] exI[of _ a'])
    next
      case False
      then have "\<exists>i<?n. \<exists>a. quoted_in (qs ! i) = Some a
           \<and> ?best = \<lparr>bestRoute = array_get routes i, best_amountIn = Some (fromRawAmount cIn a),
                  best_amountOut = Some amt\<rparr>
           \<and> (\<forall>j<?n. \<forall>b. quoted_in (qs ! j) = Some b \<longrightarrow> a \<le> b)
           \<and> (\<forall>j<i. \<forall>b. quoted_in (qs ! j) = Some b \<longrightarrow> a < b)"
        using snoc.IH by (simp only: if_False)
      then obtain i a where ia: "i < ?n" "quoted_in (qs ! i) = Some a"
        "?best = \<lparr>bestRoute = array_get routes i, best_amountIn = Some (fromRawAmount cIn a),
                  best_amountOut = Some amt\<rparr>"
        "\<forall>j<?n. \<forall>b. quoted_in (qs ! j) = Some b \<longrightarrow> a \<le> b"
        "\<forall>j<i. \<forall>b. quoted_in (qs ! j) = Some b \<longrightarrow> a < b"
        by blast
      show ?thesis
      proof (cases "a' < a")
        case True
        then have new: "bestRoute_reduce EXACT_OUTPUT amt cIn cOut routes (qs @ [q])
            = \<lparr>bestRoute = array_get routes ?n, best_amountIn = Some (fromRawAmount cIn a'),
                  best_amountOut = Some amt\<rparr>"
          using Some ia(3)
          by (simp add: bestRoute_reduce_snoc bestRoute_step_exact_output fromRawAmount_def)
        have "\<forall>j<length (qs @ [q]). \<forall>b. quoted_in ((qs @ [q]) ! j) = Some b \<longrightarrow> a' \<le> b"
          using ia(4) Some True by (fastforce simp: nth_append less_Suc_eq)
        moreover have "\<forall>j<?n. \<forall>b. quoted_in ((qs @ [q]) ! j) = Some b \<longrightarrow> a' < b"
          using ia(4) True by (fastforce simp: nth_append)
        moreover have "quoted_in ((qs @ [q]) ! ?n) = Some a'"
          using Some by simp
        ultimately show ?thesis
          using Some new by (auto intro!: exI[of _ ?n] exI[of _ a'])
      next
        case False
        then have same: "bestRoute_reduce EXACT_OUTPUT amt cIn cOut routes (qs @ [q]) = ?best"
          using Some ia(3)
          by (simp add: bestRoute_reduce_snoc bestRoute_step_exact_output fromRawAmount_def)
        have "\<forall>j<length (qs @ [q]). \<forall>b. quoted_in ((qs @ [q]) ! j) = Some b \<longrightarrow> a \<le> b"
          using ia(4) Some False by (auto simp: nth_append less_Suc_eq)
        moreover have "\<forall>j<i. \<forall>b. quoted_in ((qs @ [q]) ! j) = Some b \<longrightarrow> a < b"
          using ia(1,5) by (auto simp: nth_append)
        moreover have "quoted_in ((qs @ [q]) ! i) = Some a"
          using ia(1,2) by (simp add: nth_append)
        moreover have "i < length (qs @ [q])" using ia(1) by simp
        ultimately show ?thesis
          using Some same ia(3) by (auto intro!: exI[of _ i] exI[of _ a])
      qed
    qed
  qed
qed


lemma useClientSideV3Trade_effect_guards_passed:
  assumes "amountSpecified = Some amt" and "otherCurrency = Some cur"
    and "\<not> Currency_equals (amount_currency amt) cur"
    and "\<forall>q\<in>set qs. quote_valid q \<and> \<not> quote_loading q" and "\<not> routesLoading"
    and "cIn = (if ty = EXACT_INPUT then amount_currency amt else cur)"
    and "cOut = (if ty = EXACT_INPUT then cur else amount_currency amt)"
  shows "useClientSideV3Trade_effect im om ty amountSpecified otherCurrency routes routesLoading qs
     = (let best = bestRoute_reduce ty amt cIn cOut routes qs
        in case (bestRoute best, best_amountIn best, best_amountOut best) of
             (Some r, Some amountIn, Some amountOut) \<Rightarrow>
               if \<not> im r amountIn then NoUpdate
               else if \<not> om r amountOut then NoUpdate
               else CreateUncheckedTrade r amountIn amountOut
           | _ \<Rightarrow> SetResult NO_ROUTE_FOUND)"
  using assms by (cases ty) (simp_all add: useClientSideV3Trade_effect_def Let_def)

text \<open>
  Selection by position. Once the guards of the effect have passed (amount and both
  currencies present and different, every quote valid, nothing loading), and with no
  more quotes than routes: for an exact-input trade the effect takes the position of the
  largest output amount among the quotes, for an exact-output trade the position of the
  smallest input amount, and among equal quotes the first position; it asks for the
  trade of the route at that position and the two amounts (or leaves the result alone
  when the route does not fit them). If no quote yields an amount the effect sets the
  state \<open>NO_ROUTE_FOUND\<close> without a trade; it is a value, nothing is thrown.
\<close>

lemma effect_selects_position_of_first_best_quote:
  assumes "amountSpecified = Some amt" and "otherCurrency = Some cur"
    and "\<not> Currency_equals (amount_currency amt) cur"
    and "\<forall>q\<in>set qs. quote_valid q \<and> \<not> quote_loading q" and "\<not> routesLoading"
    and "length qs \<le> length routes"
  shows
  "((\<exists>q\<in>set qs. quoted_out q \<noteq> None) \<longrightarrow>
      (\<exists>i<length qs. \<exists>a. quoted_out (qs ! i) = Some a
         \<and> (\<forall>j<length qs. \<forall>b. quoted_out (qs ! j) = Some b \<longrightarrow> b \<le> a)
         \<and> (\<forall>j<i. \<forall>b. quoted_out (qs ! j) = Some b \<longrightarrow> b < a)
         \<and> bestRoute_reduce EXACT_INPUT amt (amount_currency amt) cur routes qs
             = \<lparr>bestRoute = Some (routes ! i), best_amountIn = Some amt,
                best_amountOut = Some (fromRawAmount cur a)\<rparr>
         \<and> useClientSideV3Trade_effect im om EXACT_INPUT amountSpecified otherCurrency routes
               routesLoading qs
             = (if im (routes ! i) amt \<and> om (routes ! i) (fromRawAmount cur a)
                then CreateUncheckedTrade (routes ! i) amt (fromRawAmount cur a)
                else NoUpdate)))
   \<and> ((\<exists>q\<in>set qs. quoted_in q \<noteq> None) \<longrightarrow>
      (\<exists>i<length qs. \<exists>a. quoted_in (qs ! i) = Some a
         \<and> (\<forall>j<length qs. \<forall>b. quoted_in (qs ! j) = Some b \<longrightarrow> a \<le> b)
         \<and> (\<forall>j<i. \<forall>b. quoted_in (qs ! j) = Some b \<longrightarrow> a < b)
         \<and> bestRoute_reduce EXACT_OUTPUT amt cur (amount_currency amt) routes qs
             = \<lparr>bestRoute = Some (routes ! i), best_amountIn = Some (fromRawAmount cur a),
                best_amountOut = Some amt\<rparr>
         \<and> useClientSideV3Trade_effect im om EXACT_OUTPUT amountSpecified otherCurrency routes
               routesLoading qs
             = (if im (routes ! i) (fromRawAmount cur a) \<and> om (routes ! i) amt
                then CreateUncheckedTrade (routes ! i) (fromRawAmount cur a) amt
                else NoUpdate)))
   \<and> ((\<forall>q\<in>set qs. quoted_out q = None) \<longrightarrow>
        useClientSideV3Trade_effect im om EXACT_INPUT amountSpecified otherCurrency routes
          routesLoading qs = SetResult NO_ROUTE_FOUND)
   \<and> ((\<forall>q\<in>set qs. quoted_in q = None) \<longrightarrow>
        useClientSideV3Trade_effect im om EXACT_OUTPUT amountSpecified otherCurrency routes
          routesLoading qs = SetResult NO_ROUTE_FOUND)"
proof (intro conjI impI)
  note eff_in = useClientSideV3Trade_effect_guards_passed
    [OF assms(1-5), where ty = EXACT_INPUT and cIn = "amount_currency amt" and cOut = cur
       and im = im and om = om and routes = routes, simplified]
  note eff_out = useClientSideV3Trade_effect_guards_passed
    [OF assms(1-5), where ty = EXACT_OUTPUT and cIn = cur and cOut = "amount_currency amt"
       and im = im and om = om and routes = routes, simplified]
  {
    assume "\<exists>q\<in>set qs. quoted_out q \<noteq> None"
    then have "\<not> (\<forall>q\<in>set qs. quoted_out q = None)" by auto
    then obtain i a where ia: "i < length qs" "quoted_out (qs ! i) = Some a"
      "bestRoute_reduce EXACT_INPUT amt (amount_currency amt) cur routes qs
         = \<lparr>bestRoute = array_get routes i, best_amountIn = Some amt,
            best_amountOut = Some (fromRawAmount cur a)\<rparr>"
      "\<forall>j<length qs. \<forall>b. quoted_out (qs ! j) = Some b \<longrightarrow> b \<le> a"
      "\<forall>j<i. \<forall>b. quoted_out (qs ! j) = Some b \<longrightarrow> b < a"
      using reduce_exact_input_inv [of qs amt "amount_currency amt" cur routes]
      by (simp only: if_False) blast
    have r: "array_get routes i = Some (routes ! i)"
      using ia(1) assms(6) by (simp add: array_get_def)
    have "useClientSideV3Trade_effect im om EXACT_INPUT amountSpecified otherCurrency routes
               routesLoading qs
             = (if im (routes ! i) amt \<and> om (routes ! i) (fromRawAmount cur a)
                then CreateUncheckedTrade (routes ! i) amt (fromRawAmount cur a)
                else NoUpdate)"
      unfolding eff_in ia(3) r by simp
    then show "\<exists>i<length qs. \<exists>a. quoted_out (qs ! i) = Some a
         \<and> (\<forall>j<length qs. \<forall>b. quoted_out (qs ! j) = Some b \<longrightarrow> b \<le> a)
         \<and> (\<forall>j<i. \<forall>b. quoted_out (qs ! j) = Some b \<longrightarrow> b < a)
         \<and> bestRoute_reduce EXACT_INPUT amt (amount_currency amt) cur routes qs
             = \<lparr>bestRoute = Some (routes ! i), best_amountIn = Some amt,
                best_amountOut = Some (fromRawAmount cur a)\<rparr>
         \<and> useClientSideV3Trade_effect im om EXACT_INPUT amountSpecified otherCurrency routes
               routesLoading qs
             = (if im (routes ! i) amt \<and> om (routes ! i) (fromRawAmount cur a)
                then CreateUncheckedTrade (routes ! i) amt (fromRawAmount cur a)
                else NoUpdate)"
      using ia r by (intro exI[of _ i] exI[of _ a]) simp
  }
  {
    assume "\<exists>q\<in>set qs. quoted_in q \<noteq> None"
    then have "\<not> (\<forall>q\<in>set qs. quoted_in q = None)" by auto
    then obtain i a where ia: "i < length qs" "quoted_in (qs ! i) = Some a"
      "bestRoute_reduce EXACT_OUTPUT amt cur (amount_currency amt) routes qs
         = \<lparr>bestRoute = array_get routes i, best_amountIn = Some (fromRawAmount cur a),
            best_amountOut = Some amt\<rparr>"
      "\<forall>j<length qs. \<forall>b. quoted_in (qs ! j) = Some b \<longrightarrow> a \<le> b"
      "\<forall>j<i. \<forall>b. quoted_in (qs ! j) = Some b \<longrightarrow> a < b"
      using reduce_exact_output_inv [of qs amt cur "amount_currency amt" routes]
      by (simp only: if_False) blast
    have r: "array_get routes i = Some (routes ! i)"
      using ia(1) assms(6) by (simp add: array_get_def)
    have "useClientSideV3Trade_effect im om EXACT_OUTPUT amountSpecified otherCurrency routes
               routesLoading qs
             = (if im (routes ! i) (fromRawAmount cur a) \<and> om (routes ! i) amt
                then CreateUncheckedTrade (routes ! i) (fromRawAmount cur a) amt
                else NoUpdate)"
      unfolding eff_out ia(3) r by simp
    then show "\<exists>i<length qs. \<exists>a. quoted_in (qs ! i) = Some a
         \<and> (\<forall>j<length qs. \<forall>b. quoted_in (qs ! j) = Some b \<longrightarrow> a \<le> b)
         \<and> (\<forall>j<i. \<forall>b. quoted_in (qs ! j) = Some b \<longrightarrow> a < b)
         \<and> bestRoute_reduce EXACT_OUTPUT amt cur (amount_currency amt) routes qs
             = \<lparr>bestRoute = Some (routes ! i), best_amountIn = Some (fromRawAmount cur a),
                best_amountOut = Some amt\<rparr>
         \<and> useClientSideV3Trade_effect im om EXACT_OUTPUT amountSpecified otherCurrency routes
               routesLoading qs
             = (if im (routes ! i) (fromRawAmount cur a) \<and> om (routes ! i) amt
                then CreateUncheckedTrade (routes ! i) (fromRawAmount cur a) amt
                else NoUpdate)"
      using ia r by (intro exI[of _ i] exI[of _ a]) simp
  }
  {
    assume none: "\<forall>q\<in>set qs. quoted_out q = None"
    have "bestRoute_reduce EXACT_INPUT amt (amount_currency amt) cur routes qs
        = \<lparr>bestRoute = None, best_amountIn = None, best_amountOut = None\<rparr>"
      using reduce_exact_input_inv [of qs amt "amount_currency amt" cur routes] none
      by (simp only: if_True)
    then show "useClientSideV3Trade_effect im om EXACT_INPUT amountSpecified otherCurrency routes
          routesLoading qs = SetResult NO_ROUTE_FOUND"
      unfolding eff_in by simp
  }
  {
    assume none: "\<forall>q\<in>set qs. quoted_in q = None"
    have "bestRoute_reduce EXACT_OUTPUT amt cur (amount_currency amt) routes qs
        = \<lparr>bestRoute = None, best_amountIn = None, best_amountOut = None\<rparr>"
      using reduce_exact_output_inv [of qs amt cur "amount_currency amt" routes] none
      by (simp only: if_True)
    then show "useClientSideV3Trade_effect im om EXACT_OUTPUT amountSpecified otherCurrency routes
          routesLoading qs = SetResult NO_ROUTE_FOUND"
      unfolding eff_out by simp
  }
qed

lemma definedParams_all_defined:
  "definedParams (map Some xs) = xs"
  by (induction xs) simp_all

text \<open>
  When the wrapper builds call data for every route nothing is filtered out, and the
  i-th quote is the quote of the i-th route.
\<close>

lemma quotesResults_aligned_when_all_defined:
  assumes "\<forall>r\<in>set routes. quoteCallParameters r amt ty = Some (cd r)"
  shows "quotesResults_of quoter (callParams_of quoteCallParameters ty (Some amt) routes)
           = map (\<lambda>r. quoter (cd r)) routes"
proof -
  have eq: "map (\<lambda>r. quoteCallParameters r amt ty) routes = map Some (map cd routes)"
    using assms by simp
  have "callParams_of quoteCallParameters ty (Some amt) routes = map cd routes"
    unfolding callParams_of_def option.case eq by (rule definedParams_all_defined)
  then show ?thesis
    by (simp add: quotesResults_of_def)
qed

text \<open>
  C9: the route whose quote has the largest output amount must be selected for an
  exact-input trade. The code pairs the i-th quote with \<open>routes[i]\<close>, but the quotes are
  those of the call data left after the \<open>undefined\<close> ones are filtered out. With three
  routes of which the first gets no call data, the quotes 100 (second route) and 120
  (third route) sit at the positions 0 and 1: the code asks for the trade of the second
  route with the output amount 120 that the third route was quoted.
\<close>

theorem C9_filtered_call_data_shift_quotes_against_routes:
  "callParams_of exampleCallData EXACT_INPUT
       (Some \<lparr>amount_currency = usdcToken, amount_quotient = 1000\<rparr>) exampleRoutes
     = [''calldataB'', ''calldataC'']
   \<and> map_option exampleQuoter
         (exampleCallData ''routeB'' \<lparr>amount_currency = usdcToken, amount_quotient = 1000\<rparr>
            EXACT_INPUT)
     = Some (quoteOf (Some 100) (Some 100))
   \<and> map_option exampleQuoter
         (exampleCallData ''routeC'' \<lparr>amount_currency = usdcToken, amount_quotient = 1000\<rparr>
            EXACT_INPUT)
     = Some (quoteOf (Some 120) (Some 90))
   \<and> useClientSideV3Trade exampleCallData exampleQuoter (\<lambda>r a. True) (\<lambda>r a. True) EXACT_INPUT
       (Some \<lparr>amount_currency = usdcToken, amount_quotient = 1000\<rparr>) (Some daiToken)
       exampleRoutes False
     = CreateUncheckedTrade ''routeB'' \<lparr>amount_currency = usdcToken, amount_quotient = 1000\<rparr>
         \<lparr>amount_currency = daiToken, amount_quotient = 120\<rparr>"
  by (simp add: useClientSideV3Trade_def useClientSideV3Trade_effect_def callParams_of_def
      quotesResults_of_def exampleCallData_def exampleQuoter_def exampleRoutes_def quoteOf_def
      usdcToken_def daiToken_def bestRoute_reduce_def bestRoute_step_def fromRawAmount_def
      array_get_def Let_def upt_rec)

theorem C9_filtered_call_data_shift_quotes_against_routes_witness:
  "useClientSideV3Trade exampleCallData exampleQuoter (\<lambda>r a. True) (\<lambda>r a. True) EXACT_INPUT
       (Some \<lparr>amount_currency = usdcToken, amount_quotient = 1000\<rparr>) (Some daiToken)
       exampleRoutes False
     \<noteq> CreateUncheckedTrade ''routeC'' \<lparr>amount_currency = usdcToken, amount_quotient = 1000\<rparr>
         \<lparr>amount_currency = daiToken, amount_quotient = 120\<rparr>"
  using C9_filtered_call_data_shift_quotes_against_routes by simp

text \<open>
  C10: when the amount is missing, or the other currency is missing (one of the two
  currencies of the trade is then missing), or the currency of the amount equals the
  currency on the opposite side, the effect sets the state \<open>INVALID\<close> without a trade,
  whatever the routes and quotes are: the search for the best route is not reached.
\<close>

theorem C10_same_token_or_missing_input_is_invalid:
  "(amountSpecified = None \<or> otherCurrency = None
      \<or> (\<exists>amt cur. amountSpecified = Some amt \<and> otherCurrency = Some cur
            \<and> Currency_equals (amount_currency amt) cur))
   \<longrightarrow> useClientSideV3Trade_effect im om ty amountSpecified otherCurrency routes routesLoading qs
        = SetResult INVALID"
  by (cases ty; cases amountSpecified; cases otherCurrency)
     (auto simp: useClientSideV3Trade_effect_def Let_def)

theorem C10_same_token_or_missing_input_is_invalid_witness:
  "useClientSideV3Trade_effect (\<lambda>r a. True) (\<lambda>r a. True) EXACT_INPUT
       (Some \<lparr>amount_currency = usdcToken, amount_quotient = 1000\<rparr>)
       (Some (Token 1 ''0xA0b8'' 6 ''USD Coin'')) exampleRoutes False exampleQuotes
     = SetResult INVALID
   \<and> useClientSideV3Trade_effect (\<lambda>r a. True) (\<lambda>r a. True) EXACT_OUTPUT
       (Some \<lparr>amount_currency = usdcToken, amount_quotient = 1000\<rparr>)
       (Some (Token 1 ''0xA0b8'' 6 ''USD Coin'')) exampleRoutes False exampleQuotes
     = SetResult INVALID
   \<and> useClientSideV3Trade_effect (\<lambda>r a. True) (\<lambda>r a. True) EXACT_INPUT
       None (Some daiToken) exampleRoutes False exampleQuotes
     = SetResult INVALID
   \<and> useClientSideV3Trade_effect (\<lambda>r a. True) (\<lambda>r a. True) EXACT_OUTPUT
       (Some \<lparr>amount_currency = usdcToken, amount_quotient = 1000\<rparr>)
       None exampleRoutes False exampleQuotes
     = SetResult INVALID"
proof -
  let ?amt = "\<lparr>amount_currency = usdcToken, amount_quotient = 1000\<rparr>"
  have same: "Currency_equals (amount_currency ?amt) (Token 1 ''0xA0b8'' 6 ''USD Coin'')"
    by (simp add: usdcToken_def)
  note inst = C10_same_token_or_missing_input_is_invalid
    [where im = "\<lambda>r a. True" and om = "\<lambda>r a. True" and routes = exampleRoutes
       and routesLoading = False and qs = exampleQuotes]
  have "useClientSideV3Trade_effect (\<lambda>r a. True) (\<lambda>r a. True) ty (Some ?amt)
       (Some (Token 1 ''0xA0b8'' 6 ''USD Coin'')) exampleRoutes False exampleQuotes
     = SetResult INVALID" for ty
    using inst [where ty = ty and amountSpecified = "Some ?amt"
        and otherCurrency = "Some (Token 1 ''0xA0b8'' 6 ''USD Coin'')"] same
    by blast
  moreover have "useClientSideV3Trade_effect (\<lambda>r a. True) (\<lambda>r a. True) EXACT_INPUT
       None (Some daiToken) exampleRoutes False exampleQuotes = SetResult INVALID"
    using inst [where ty = EXACT_INPUT and amountSpecified = None
        and otherCurrency = "Some daiToken"]
    by blast
  moreover have "useClientSideV3Trade_effect (\<lambda>r a. True) (\<lambda>r a. True) EXACT_OUTPUT
       (Some ?amt) None exampleRoutes False exampleQuotes = SetResult INVALID"
    using inst [where ty = EXACT_OUTPUT and amountSpecified = "Some ?amt"
        and otherCurrency = None]
    by blast
  ultimately show ?thesis by blast
qed

end
